theory Spec2Isabelle
  imports Main
begin

section \<open>Data model (types/auth.ts)\<close>

text \<open>
  The JWT payload, the token pair returned by the auth server, the error class and the
  user object, as the interfaces of \<^verbatim>\<open>types/auth.ts\<close> declare them. Numbers are
  integers (\<^verbatim>\<open>exp\<close> and \<^verbatim>\<open>Date.now()\<close> are whole seconds and milliseconds).
\<close>

record JwtPayload =
  sub :: string
  exp :: int
  iat :: int
  roles :: "string list option"
  email :: string

record AuthTokens =
  newAccessToken :: string
  newRefreshToken :: string

datatype AuthErrorType = INVALID_CREDENTIALS | TOKEN_EXPIRED | REFRESH_FAILED | UNAUTHORIZED

datatype AuthError = AuthError AuthErrorType string

record AuthUser =
  user_id :: string
  user_roles :: "string list"
  user_email :: string

text \<open>
  Anything thrown by \<^verbatim>\<open>$fetch\<close> or by \<^verbatim>\<open>jwtDecode\<close> is seen by the code only
  through its \<^verbatim>\<open>message\<close>; a missing message is the empty string, which is falsy
  like \<^verbatim>\<open>undefined\<close>.
\<close>

type_synonym message = string

definition or_default :: "message \<Rightarrow> string \<Rightarrow> string" where
  "or_default m d = (if m = [] then d else m)"

section \<open>Session state (composables/useAuth.ts)\<close>

text \<open>
  The two cookie refs and the two shared state refs; for every instance of the composable
  (numbered in the order of the \<^verbatim>\<open>useAuth()\<close> calls) the value that its computed ref
  \<^verbatim>\<open>isTokenExpired\<close> holds memoised, if any; and the effects the composable has on the
  outside world: the URL of every network request it issues, oldest first, the messages
  written with \<^verbatim>\<open>console.error\<close>, and the values assigned to \<^verbatim>\<open>loading.value\<close>,
  oldest first.
\<close>

record auth_state =
  accessToken :: "string option"
  refreshToken :: "string option"
  user :: "AuthUser option"
  loading :: bool
  expiredMemo :: "nat \<Rightarrow> bool option"
  requests :: "string list"
  consoleErrors :: "message list"
  loadingWrites :: "bool list"

text \<open>JavaScript truthiness of a cookie value: \<^verbatim>\<open>null\<close> and the empty string are falsy.\<close>

definition truthy :: "string option \<Rightarrow> bool" where
  "truthy v = (case v of None \<Rightarrow> False | Some t \<Rightarrow> t \<noteq> [])"

text \<open>
  An asynchronous function runs synchronously up to its first \<^verbatim>\<open>await\<close> of a network
  call. Its first segment either settles at once with a result, or is left awaiting the
  network answer.
\<close>

datatype ('r, 's) run = Awaiting 's | Settled 'r 's

text \<open>
  An assignment to \<^verbatim>\<open>loading.value\<close>, and one to \<^verbatim>\<open>accessToken.value\<close>: a ref
  notifies its dependents when the value assigned differs from the one it held, and every
  \<^verbatim>\<open>isTokenExpired\<close> then drops its memoised value.
\<close>

definition set_loading :: "bool \<Rightarrow> auth_state \<Rightarrow> auth_state" where
  "set_loading b s = s\<lparr>loading := b, loadingWrites := loadingWrites s @ [b]\<rparr>"

definition set_accessToken :: "string option \<Rightarrow> auth_state \<Rightarrow> auth_state" where
  "set_accessToken v s =
     s\<lparr>accessToken := v,
       expiredMemo := (if accessToken s = v then expiredMemo s else (\<lambda>k. None))\<rparr>"

text \<open>
  \<^verbatim>\<open>isAuthenticated\<close> is a computed ref over reactive state only, so reading it gives
  the value of its getter on the current state.
\<close>

definition isAuthenticated :: "auth_state \<Rightarrow> bool" where
  "isAuthenticated s = (truthy (accessToken s) \<and> user s \<noteq> None)"

text \<open>
  \<^verbatim>\<open>jwtDecode\<close> is the library function: \<open>Inl m\<close> when it throws with message \<open>m\<close>.
  The getter of \<^verbatim>\<open>isTokenExpired\<close> reads the access token and the clock; \<open>now\<close> is the
  value of \<^verbatim>\<open>Date.now()\<close> when it runs.
\<close>

definition isTokenExpired_getter :: "(string \<Rightarrow> message + JwtPayload) \<Rightarrow> int \<Rightarrow> auth_state \<Rightarrow> bool" where
  "isTokenExpired_getter jwtDecode now s =
     (if \<not> truthy (accessToken s) then True
      else case accessToken s of
        None \<Rightarrow> True
      | Some t \<Rightarrow>
         (case jwtDecode t of
            Inl m \<Rightarrow> True
          | Inr payload \<Rightarrow> now \<ge> exp payload * 1000 - 10000))"

text \<open>
  \<^verbatim>\<open>isTokenExpired\<close> is \<^verbatim>\<open>computed(getter)\<close>. The access token is the getter's only
  reactive dependency, the clock is none: reading \<^verbatim>\<open>isTokenExpired.value\<close> on instance
  \<open>k\<close> at time \<open>now\<close> returns the memoised value when there is one, and otherwise runs the
  getter and memoises its result. \<open>isTokenExpired\<close> is the value read,
  \<open>read_isTokenExpired\<close> the state after the read.
\<close>

definition isTokenExpired :: "(string \<Rightarrow> message + JwtPayload) \<Rightarrow> int \<Rightarrow> nat \<Rightarrow> auth_state \<Rightarrow> bool" where
  "isTokenExpired jwtDecode now k s =
     (case expiredMemo s k of
        Some v \<Rightarrow> v
      | None \<Rightarrow> isTokenExpired_getter jwtDecode now s)"

definition read_isTokenExpired ::
  "(string \<Rightarrow> message + JwtPayload) \<Rightarrow> int \<Rightarrow> nat \<Rightarrow> auth_state \<Rightarrow> auth_state" where
  "read_isTokenExpired jwtDecode now k s =
     s\<lparr>expiredMemo := (expiredMemo s)(k := Some (isTokenExpired jwtDecode now k s))\<rparr>"

definition parseUserFromToken :: "(string \<Rightarrow> message + JwtPayload) \<Rightarrow> string \<Rightarrow> message + AuthUser" where
  "parseUserFromToken jwtDecode token =
     (case jwtDecode token of
        Inl m \<Rightarrow> Inl m
      | Inr payload \<Rightarrow>
          Inr \<lparr> user_id = sub payload,
                user_roles = (case roles payload of None \<Rightarrow> [] | Some r \<Rightarrow> r),
                user_email = email payload \<rparr>)"

subsection \<open>login\<close>

definition login_start :: "auth_state \<Rightarrow> auth_state" where
  "login_start s =
     (let s1 = set_loading True s
      in s1\<lparr>requests := requests s1 @ [''/api/auth/login'']\<rparr>)"

definition login_finish ::
  "(string \<Rightarrow> message + JwtPayload) \<Rightarrow> message + AuthTokens \<Rightarrow> auth_state \<Rightarrow> (AuthError + unit) \<times> auth_state" where
  "login_finish jwtDecode response s =
     (case response of
        Inl m \<Rightarrow>
          (Inl (AuthError INVALID_CREDENTIALS (or_default m ''Invalid credentials'')),
           set_loading False s)
      | Inr tokens \<Rightarrow>
          (let s1 = set_accessToken (Some (newAccessToken tokens)) s;
               s2 = s1\<lparr>refreshToken := Some (newRefreshToken tokens)\<rparr>
           in case parseUserFromToken jwtDecode (newAccessToken tokens) of
                Inl m \<Rightarrow>
                  (Inl (AuthError INVALID_CREDENTIALS (or_default m ''Invalid credentials'')),
                   set_loading False s2)
              | Inr u \<Rightarrow> (Inr (), set_loading False (s2\<lparr>user := Some u\<rparr>))))"

definition login ::
  "(string \<Rightarrow> message + JwtPayload) \<Rightarrow> message + AuthTokens \<Rightarrow> auth_state \<Rightarrow> (AuthError + unit) \<times> auth_state" where
  "login jwtDecode response s = login_finish jwtDecode response (login_start s)"

subsection \<open>refreshAccessToken\<close>

definition refresh_start :: "auth_state \<Rightarrow> (AuthError + string, auth_state) run" where
  "refresh_start s =
     (if \<not> truthy (refreshToken s)
      then Settled (Inl (AuthError REFRESH_FAILED ''No refresh token available'')) s
      else Awaiting (s\<lparr>requests := requests s @ [''/api/auth/refresh'']\<rparr>))"

definition refresh_finish ::
  "(string \<Rightarrow> message + JwtPayload) \<Rightarrow> message + AuthTokens \<Rightarrow> auth_state \<Rightarrow> (AuthError + string) \<times> auth_state" where
  "refresh_finish jwtDecode response s =
     (case response of
        Inl m \<Rightarrow> (Inl (AuthError REFRESH_FAILED (or_default m ''Failed to refresh token'')), s)
      | Inr tokens \<Rightarrow>
          (let s1 = set_accessToken (Some (newAccessToken tokens)) s
           in case parseUserFromToken jwtDecode (newAccessToken tokens) of
                Inl m \<Rightarrow> (Inl (AuthError REFRESH_FAILED (or_default m ''Failed to refresh token'')), s1)
              | Inr u \<Rightarrow> (Inr (newAccessToken tokens), s1\<lparr>user := Some u\<rparr>)))"

definition refreshAccessToken ::
  "(string \<Rightarrow> message + JwtPayload) \<Rightarrow> message + AuthTokens \<Rightarrow> auth_state \<Rightarrow> (AuthError + string) \<times> auth_state" where
  "refreshAccessToken jwtDecode response s =
     (case refresh_start s of
        Settled r s' \<Rightarrow> (r, s')
      | Awaiting s' \<Rightarrow> refresh_finish jwtDecode response s')"

text \<open>
  A function that awaits \<^verbatim>\<open>refreshAccessToken()\<close> is in one of three states: the
  refresh request is outstanding; \<^verbatim>\<open>refreshAccessToken\<close> has settled with a result and
  the function has not resumed yet; or the function has finished.
\<close>

datatype refresh_state =
    RefreshPending
  | RefreshSettled "AuthError + string"
  | RefreshDone

subsection \<open>logout\<close>

text \<open>The \<^verbatim>\<open>finally\<close> block of \<^verbatim>\<open>logout\<close>.\<close>

definition logout_finally :: "auth_state \<Rightarrow> auth_state" where
  "logout_finally s =
     (let s1 = set_accessToken None s;
          s2 = s1\<lparr>refreshToken := None\<rparr>;
          s3 = s2\<lparr>user := None\<rparr>
      in set_loading False s3)"

definition logout_start :: "auth_state \<Rightarrow> (AuthError + unit, auth_state) run" where
  "logout_start s =
     (let s1 = set_loading True s
      in if truthy (refreshToken s1)
         then Awaiting (s1\<lparr>requests := requests s1 @ [''/api/auth/logout'']\<rparr>)
         else Settled (Inr ()) (logout_finally s1))"

definition logout_finish :: "message + unit \<Rightarrow> auth_state \<Rightarrow> (AuthError + unit) \<times> auth_state" where
  "logout_finish response s =
     (case response of
        Inl m \<Rightarrow> (Inr (), logout_finally (s\<lparr>consoleErrors := consoleErrors s @ [m]\<rparr>))
      | Inr _ \<Rightarrow> (Inr (), logout_finally s))"

definition logout :: "message + unit \<Rightarrow> auth_state \<Rightarrow> (AuthError + unit) \<times> auth_state" where
  "logout response s =
     (case logout_start s of
        Settled r s' \<Rightarrow> (r, s')
      | Awaiting s' \<Rightarrow> logout_finish response s')"

subsection \<open>hasRole\<close>

definition hasRole :: "string \<Rightarrow> auth_state \<Rightarrow> bool" where
  "hasRole role s = (case user s of None \<Rightarrow> False | Some u \<Rightarrow> role \<in> set (user_roles u))"

subsection \<open>initialize\<close>

text \<open>The \<^verbatim>\<open>catch\<close> block of \<^verbatim>\<open>initialize\<close>, and its \<^verbatim>\<open>finally\<close> block.\<close>

definition initialize_catch :: "auth_state \<Rightarrow> auth_state" where
  "initialize_catch s =
     (let s1 = set_accessToken None s;
          s2 = s1\<lparr>refreshToken := None\<rparr>
      in s2\<lparr>user := None\<rparr>)"

definition initialize_finally :: "auth_state \<Rightarrow> auth_state" where
  "initialize_finally s = set_loading False s"

text \<open>
  \<^verbatim>\<open>initialize\<close> on instance \<open>k\<close> up to its \<^verbatim>\<open>await refreshAccessToken()\<close>, where it
  is suspended also when \<^verbatim>\<open>refreshAccessToken\<close> has rejected at once; without an access
  token, or with one that is read as not expired, it finishes in this segment.
\<close>

definition initialize_start ::
  "(string \<Rightarrow> message + JwtPayload) \<Rightarrow> int \<Rightarrow> nat \<Rightarrow> auth_state \<Rightarrow> refresh_state \<times> auth_state" where
  "initialize_start jwtDecode now k s =
     (let s1 = set_loading True s
      in case accessToken s1 of
           None \<Rightarrow> (RefreshDone, initialize_finally s1)
         | Some t \<Rightarrow>
             if t = [] then (RefreshDone, initialize_finally s1)
             else
               (let s2 = read_isTokenExpired jwtDecode now k s1
                in if isTokenExpired jwtDecode now k s1 then
                     (case refresh_start s2 of
                        Settled r s3 \<Rightarrow> (RefreshSettled r, s3)
                      | Awaiting s3 \<Rightarrow> (RefreshPending, s3))
                   else
                     (case parseUserFromToken jwtDecode t of
                        Inl m \<Rightarrow> (RefreshDone, initialize_finally (initialize_catch s2))
                      | Inr u \<Rightarrow> (RefreshDone, initialize_finally (s2\<lparr>user := Some u\<rparr>)))))"

text \<open>\<^verbatim>\<open>initialize\<close> resumes with the result of \<^verbatim>\<open>refreshAccessToken()\<close>.\<close>

definition initialize_resume :: "AuthError + string \<Rightarrow> auth_state \<Rightarrow> auth_state" where
  "initialize_resume r s =
     (case r of
        Inl e \<Rightarrow> initialize_finally (initialize_catch s)
      | Inr t \<Rightarrow> initialize_finally s)"

definition initialize ::
  "(string \<Rightarrow> message + JwtPayload) \<Rightarrow> int \<Rightarrow> nat \<Rightarrow> message + AuthTokens \<Rightarrow> auth_state \<Rightarrow> auth_state" where
  "initialize jwtDecode now k response s =
     (case initialize_start jwtDecode now k s of
        (RefreshDone, s') \<Rightarrow> s'
      | (RefreshSettled r, s') \<Rightarrow> initialize_resume r s'
      | (RefreshPending, s') \<Rightarrow>
          (case refresh_finish jwtDecode response s' of (r, s'') \<Rightarrow> initialize_resume r s''))"

subsection \<open>useAuth\<close>

text \<open>
  A call of \<^verbatim>\<open>useAuth()\<close> makes instance \<open>k\<close>, whose computed refs hold no value yet,
  and on the client (\<^verbatim>\<open>process.client\<close>) calls \<^verbatim>\<open>initialize()\<close> without awaiting it.
\<close>

definition useAuth ::
  "bool \<Rightarrow> (string \<Rightarrow> message + JwtPayload) \<Rightarrow> int \<Rightarrow> nat \<Rightarrow> auth_state \<Rightarrow> refresh_state \<times> auth_state" where
  "useAuth client jwtDecode now k s =
     (let s0 = s\<lparr>expiredMemo := (expiredMemo s)(k := None)\<rparr>
      in if client then initialize_start jwtDecode now k s0 else (RefreshDone, s0))"

section \<open>Authenticated gateway (composables/useAuthApi.ts)\<close>

subsection \<open>Fetch options\<close>

text \<open>
  An options object is a finite map from property names to values; the object spread
  \<^verbatim>\<open>{...a, ...b}\<close> is \<open>a ++ b\<close>, where the properties of \<open>b\<close> win. A handler is
  either one of the two closures that \<^verbatim>\<open>createFetchOptions\<close> builds or a function
  supplied by the caller, which the model keeps opaque.
\<close>

datatype Method = GET | POST | PUT | DELETE

datatype handler = GatewayOnRequest | GatewayOnResponseError | CallerHandler nat

datatype optval =
    Text string
  | HeadersOf "string \<rightharpoonup> string"
  | Hook handler
  | MethodOf Method
  | Undefined

type_synonym fetch_options = "string \<rightharpoonup> optval"

text \<open>The template string \<^verbatim>\<open>`Bearer ${auth.accessToken.value}`\<close>.\<close>

definition bearer :: "string option \<Rightarrow> string" where
  "bearer v = ''Bearer '' @ (case v of None \<Rightarrow> ''null'' | Some t \<Rightarrow> t)"

text \<open>The expression \<^verbatim>\<open>options.headers || {}\<close>.\<close>

definition headers_or_empty :: "fetch_options \<Rightarrow> (string \<rightharpoonup> string)" where
  "headers_or_empty options =
     (case options ''headers'' of Some (HeadersOf h) \<Rightarrow> h | _ \<Rightarrow> Map.empty)"

definition createFetchOptions :: "string \<Rightarrow> auth_state \<Rightarrow> fetch_options \<Rightarrow> fetch_options" where
  "createFetchOptions apiBase a options =
     (let baseHeaders = [''Authorization'' \<mapsto> bearer (accessToken a),
                         ''Content-Type'' \<mapsto> ''application/json''];
          headers = baseHeaders ++ headers_or_empty options
      in [''baseURL'' \<mapsto> Text apiBase,
          ''headers'' \<mapsto> HeadersOf headers,
          ''onRequest'' \<mapsto> Hook GatewayOnRequest,
          ''onResponseError'' \<mapsto> Hook GatewayOnResponseError] ++ options)"

text \<open>The object that \<^verbatim>\<open>request\<close> hands to \<^verbatim>\<open>$fetch\<close>.\<close>

definition request_options ::
  "string \<Rightarrow> auth_state \<Rightarrow> Method \<Rightarrow> string option \<Rightarrow> fetch_options \<Rightarrow> fetch_options" where
  "request_options apiBase a method data options =
     (let fetchOptions = (createFetchOptions apiBase a options)(''method'' \<mapsto> MethodOf method)
      in case data of
           None \<Rightarrow> fetchOptions
         | Some d \<Rightarrow> fetchOptions(''body'' \<mapsto> Text d))"

subsection \<open>State of the gateway and of the calls in flight\<close>

text \<open>
  The module-level slot \<^verbatim>\<open>refreshQueue\<close> holds the promise of the refresh closure, if
  any; promises are named by their index in \<open>refreshes\<close> (the refresh closures started
  so far) and in \<open>logouts\<close> (the calls of \<^verbatim>\<open>auth.logout()\<close> made by the gateway).
  \<open>initializations\<close> has one entry for every instance that \<^verbatim>\<open>useAuthApi()\<close> has made:
  the state of the \<^verbatim>\<open>initialize()\<close> call of its \<^verbatim>\<open>useAuth()\<close>. All instances share
  the session state and the slot. Every gateway call has a caller identifier and a state.
  \<open>navigations\<close> lists the arguments of \<^verbatim>\<open>navigateTo\<close>, \<open>hooksRun\<close> the handlers
  that \<^verbatim>\<open>$fetch\<close> invoked and for which call.
\<close>

datatype logout_state = LogoutPending | LogoutDone

datatype http_result = NetworkError message | Status nat

datatype caller_state =
    Idle
  | Threw AuthError
  | AwaitingRefresh nat string fetch_options
  | Dispatched string fetch_options
  | AwaitingLogout nat nat
  | Fulfilled nat
  | Failed http_result

record gateway_state =
  auth :: auth_state
  refreshQueue :: "nat option"
  refreshes :: "refresh_state list"
  initializations :: "refresh_state list"
  logouts :: "logout_state list"
  callers :: "nat \<Rightarrow> caller_state"
  navigations :: "string list"
  hooksRun :: "(nat \<times> handler) list"

definition navigateTo :: "string \<Rightarrow> gateway_state \<Rightarrow> gateway_state" where
  "navigateTo path s = s\<lparr>navigations := navigations s @ [path]\<rparr>"

text \<open>A call of \<^verbatim>\<open>auth.logout()\<close>: its first segment runs, its promise is recorded.\<close>

definition call_logout :: "gateway_state \<Rightarrow> gateway_state" where
  "call_logout s =
     (case logout_start (auth s) of
        Settled r a \<Rightarrow> s\<lparr>auth := a, logouts := logouts s @ [LogoutDone]\<rparr>
      | Awaiting a \<Rightarrow> s\<lparr>auth := a, logouts := logouts s @ [LogoutPending]\<rparr>)"

text \<open>The HTTP request of caller \<open>i\<close> leaves for the network.\<close>

definition dispatch :: "nat \<Rightarrow> string \<Rightarrow> fetch_options \<Rightarrow> gateway_state \<Rightarrow> gateway_state" where
  "dispatch i url fo s =
     s\<lparr>auth := (auth s)\<lparr>requests := requests (auth s) @ [url]\<rparr>,
       callers := (callers s)(i := Dispatched url fo)\<rparr>"

subsection \<open>The request hook\<close>

text \<open>
  The gateway's \<^verbatim>\<open>onRequest\<close>, on the instance \<open>k\<close> whose \<^verbatim>\<open>auth\<close> it closes over,
  up to its \<^verbatim>\<open>await refreshQueue\<close>. It reads \<^verbatim>\<open>auth.isTokenExpired.value\<close>. The
  refresh closure runs \<^verbatim>\<open>auth.refreshAccessToken()\<close> up to its own first \<^verbatim>\<open>await\<close>
  and its promise is stored in \<^verbatim>\<open>refreshQueue\<close> within the same synchronous segment.
\<close>

definition onRequest ::
  "(string \<Rightarrow> message + JwtPayload) \<Rightarrow> int \<Rightarrow> nat \<Rightarrow> nat \<Rightarrow> string \<Rightarrow> fetch_options \<Rightarrow> gateway_state \<Rightarrow> gateway_state" where
  "onRequest jwtDecode now i k url fo s0 =
     (let s = s0\<lparr>auth := read_isTokenExpired jwtDecode now k (auth s0)\<rparr>
      in
      if isTokenExpired jwtDecode now k (auth s0) then
        (case refreshQueue s of
           Some h \<Rightarrow> s\<lparr>callers := (callers s)(i := AwaitingRefresh h url fo)\<rparr>
         | None \<Rightarrow>
            (let h = length (refreshes s)
             in case refresh_start (auth s) of
                  Settled r a \<Rightarrow>
                    s\<lparr>auth := a,
                      refreshQueue := Some h,
                      refreshes := refreshes s @ [RefreshSettled r],
                      callers := (callers s)(i := AwaitingRefresh h url fo)\<rparr>
                | Awaiting a \<Rightarrow>
                    s\<lparr>auth := a,
                      refreshQueue := Some h,
                      refreshes := refreshes s @ [RefreshPending],
                      callers := (callers s)(i := AwaitingRefresh h url fo)\<rparr>))
      else dispatch i url fo s)"

text \<open>The answer of the refresh endpoint arrives: \<^verbatim>\<open>refreshAccessToken\<close> settles.\<close>

definition refresh_response ::
  "(string \<Rightarrow> message + JwtPayload) \<Rightarrow> nat \<Rightarrow> message + AuthTokens \<Rightarrow> gateway_state \<Rightarrow> gateway_state" where
  "refresh_response jwtDecode h response s =
     (if h < length (refreshes s) then
        (case refreshes s ! h of
           RefreshPending \<Rightarrow>
             (case refresh_finish jwtDecode response (auth s) of
                (r, a) \<Rightarrow> s\<lparr>auth := a, refreshes := (refreshes s)[h := RefreshSettled r]\<rparr>)
         | _ \<Rightarrow> s)
      else s)"

text \<open>
  The refresh closure resumes after \<^verbatim>\<open>await auth.refreshAccessToken()\<close>: its
  \<^verbatim>\<open>catch\<close> block on a failure, then its \<^verbatim>\<open>finally\<close> block; its promise is fulfilled.
\<close>

definition iife_resume :: "nat \<Rightarrow> gateway_state \<Rightarrow> gateway_state" where
  "iife_resume h s =
     (if h < length (refreshes s) then
        (case refreshes s ! h of
           RefreshSettled r \<Rightarrow>
             (let s1 = (case r of
                          Inl e \<Rightarrow> navigateTo ''/signin'' (call_logout s)
                        | Inr t \<Rightarrow> s)
              in s1\<lparr>refreshQueue := None, refreshes := (refreshes s1)[h := RefreshDone]\<rparr>)
         | _ \<Rightarrow> s)
      else s)"

text \<open>
  \<^verbatim>\<open>onRequest\<close> resumes after \<^verbatim>\<open>await refreshQueue\<close>, sets the header and returns;
  \<^verbatim>\<open>$fetch\<close> then sends the request.
\<close>

definition onRequest_resume :: "nat \<Rightarrow> gateway_state \<Rightarrow> gateway_state" where
  "onRequest_resume i s =
     (case callers s i of
        AwaitingRefresh h url fo \<Rightarrow>
          if h < length (refreshes s) \<and> refreshes s ! h = RefreshDone then
            (let currentHeaders = headers_or_empty fo;
                 fo' = fo(''headers'' \<mapsto>
                          HeadersOf (currentHeaders(''Authorization'' \<mapsto> bearer (accessToken (auth s)))))
             in dispatch i url fo' s)
          else s
      | _ \<Rightarrow> s)"

subsection \<open>request and the library's \<^verbatim>\<open>$fetch\<close>\<close>

text \<open>
  \<^verbatim>\<open>$fetch\<close> invokes the \<^verbatim>\<open>onRequest\<close> property of its options, if there is one,
  before it sends the request. \<^verbatim>\<open>request\<close> and the four methods belong to the object
  that \<^verbatim>\<open>useAuthApi()\<close> returned for instance \<open>k\<close>; \<open>i\<close> names the call.
\<close>

definition fetch_start ::
  "(string \<Rightarrow> message + JwtPayload) \<Rightarrow> int \<Rightarrow> nat \<Rightarrow> nat \<Rightarrow> string \<Rightarrow> fetch_options \<Rightarrow> gateway_state \<Rightarrow> gateway_state" where
  "fetch_start jwtDecode now i k url fo s =
     (case fo ''onRequest'' of
        Some (Hook GatewayOnRequest) \<Rightarrow>
          onRequest jwtDecode now i k url fo (s\<lparr>hooksRun := hooksRun s @ [(i, GatewayOnRequest)]\<rparr>)
      | Some (Hook h) \<Rightarrow> dispatch i url fo (s\<lparr>hooksRun := hooksRun s @ [(i, h)]\<rparr>)
      | _ \<Rightarrow> dispatch i url fo s)"

definition request ::
  "string \<Rightarrow> (string \<Rightarrow> message + JwtPayload) \<Rightarrow> int \<Rightarrow> nat \<Rightarrow> nat \<Rightarrow> Method \<Rightarrow> string \<Rightarrow> string option \<Rightarrow>
   fetch_options \<Rightarrow> gateway_state \<Rightarrow> gateway_state" where
  "request apiBase jwtDecode now i k method url data options s =
     (if \<not> isAuthenticated (auth s) then
        s\<lparr>callers := (callers s)(i := Threw (AuthError UNAUTHORIZED ''Authentication required''))\<rparr>
      else fetch_start jwtDecode now i k url (request_options apiBase (auth s) method data options) s)"

definition get ::
  "string \<Rightarrow> (string \<Rightarrow> message + JwtPayload) \<Rightarrow> int \<Rightarrow> nat \<Rightarrow> nat \<Rightarrow> string \<Rightarrow> fetch_options \<Rightarrow> gateway_state \<Rightarrow> gateway_state" where
  "get apiBase jwtDecode now i k url options = request apiBase jwtDecode now i k GET url None options"

definition post ::
  "string \<Rightarrow> (string \<Rightarrow> message + JwtPayload) \<Rightarrow> int \<Rightarrow> nat \<Rightarrow> nat \<Rightarrow> string \<Rightarrow> string \<Rightarrow> fetch_options \<Rightarrow> gateway_state \<Rightarrow> gateway_state" where
  "post apiBase jwtDecode now i k url data options = request apiBase jwtDecode now i k POST url (Some data) options"

definition put ::
  "string \<Rightarrow> (string \<Rightarrow> message + JwtPayload) \<Rightarrow> int \<Rightarrow> nat \<Rightarrow> nat \<Rightarrow> string \<Rightarrow> string \<Rightarrow> fetch_options \<Rightarrow> gateway_state \<Rightarrow> gateway_state" where
  "put apiBase jwtDecode now i k url data options = request apiBase jwtDecode now i k PUT url (Some data) options"

definition delete ::
  "string \<Rightarrow> (string \<Rightarrow> message + JwtPayload) \<Rightarrow> int \<Rightarrow> nat \<Rightarrow> nat \<Rightarrow> string \<Rightarrow> fetch_options \<Rightarrow> gateway_state \<Rightarrow> gateway_state" where
  "delete apiBase jwtDecode now i k url options = request apiBase jwtDecode now i k DELETE url None options"

subsection \<open>The response hook\<close>

text \<open>
  The gateway's \<^verbatim>\<open>onResponseError\<close> up to its \<^verbatim>\<open>await auth.logout()\<close>, and its
  continuation. After the handler \<^verbatim>\<open>$fetch\<close> rejects with the response's error.
\<close>

definition onResponseError :: "nat \<Rightarrow> nat \<Rightarrow> gateway_state \<Rightarrow> gateway_state" where
  "onResponseError i status s =
     (if status = 401 then
        (let k = length (logouts s)
         in (call_logout s)\<lparr>callers := (callers s)(i := AwaitingLogout k status)\<rparr>)
      else s\<lparr>callers := (callers s)(i := Failed (Status status))\<rparr>)"

definition onResponseError_resume :: "nat \<Rightarrow> gateway_state \<Rightarrow> gateway_state" where
  "onResponseError_resume i s =
     (case callers s i of
        AwaitingLogout k status \<Rightarrow>
          if k < length (logouts s) \<and> logouts s ! k = LogoutDone then
            (navigateTo ''/signin'' s)\<lparr>callers := (callers s)(i := Failed (Status status))\<rparr>
          else s
      | _ \<Rightarrow> s)"

text \<open>
  The answer to a dispatched request arrives. \<^verbatim>\<open>$fetch\<close> treats a status from 400 to
  599 as an error and invokes the \<^verbatim>\<open>onResponseError\<close> property of its options.
\<close>

definition fetch_finish :: "nat \<Rightarrow> http_result \<Rightarrow> gateway_state \<Rightarrow> gateway_state" where
  "fetch_finish i res s =
     (case callers s i of
        Dispatched url fo \<Rightarrow>
          (case res of
             NetworkError m \<Rightarrow> s\<lparr>callers := (callers s)(i := Failed res)\<rparr>
           | Status status \<Rightarrow>
               if 400 \<le> status \<and> status < 600 then
                 (case fo ''onResponseError'' of
                    Some (Hook GatewayOnResponseError) \<Rightarrow>
                      onResponseError i status
                        (s\<lparr>hooksRun := hooksRun s @ [(i, GatewayOnResponseError)]\<rparr>)
                  | Some (Hook h) \<Rightarrow>
                      s\<lparr>callers := (callers s)(i := Failed res),
                        hooksRun := hooksRun s @ [(i, h)]\<rparr>
                  | _ \<Rightarrow> s\<lparr>callers := (callers s)(i := Failed res)\<rparr>)
               else s\<lparr>callers := (callers s)(i := Fulfilled status)\<rparr>)
      | _ \<Rightarrow> s)"

text \<open>The answer of the logout endpoint arrives: \<^verbatim>\<open>logout\<close> settles.\<close>

definition logout_response :: "nat \<Rightarrow> message + unit \<Rightarrow> gateway_state \<Rightarrow> gateway_state" where
  "logout_response k response s =
     (if k < length (logouts s) then
        (case logouts s ! k of
           LogoutPending \<Rightarrow>
             s\<lparr>auth := snd (logout_finish response (auth s)), logouts := (logouts s)[k := LogoutDone]\<rparr>
         | LogoutDone \<Rightarrow> s)
      else s)"

subsection \<open>useAuthApi and initialize\<close>

text \<open>
  A call of \<^verbatim>\<open>useAuthApi()\<close> calls \<^verbatim>\<open>useAuth()\<close>, which makes the next instance and,
  on the client, starts its \<^verbatim>\<open>initialize()\<close>. That \<^verbatim>\<open>initialize()\<close> calls
  \<^verbatim>\<open>refreshAccessToken()\<close> itself and does not look at \<^verbatim>\<open>refreshQueue\<close>.
\<close>

definition useAuthApi ::
  "bool \<Rightarrow> (string \<Rightarrow> message + JwtPayload) \<Rightarrow> int \<Rightarrow> gateway_state \<Rightarrow> gateway_state" where
  "useAuthApi client jwtDecode now s =
     (let k = length (initializations s)
      in case useAuth client jwtDecode now k (auth s) of
           (st, a) \<Rightarrow> s\<lparr>auth := a, initializations := initializations s @ [st]\<rparr>)"

text \<open>The answer of the refresh endpoint to the request of an \<^verbatim>\<open>initialize()\<close> arrives.\<close>

definition initialize_response ::
  "(string \<Rightarrow> message + JwtPayload) \<Rightarrow> nat \<Rightarrow> message + AuthTokens \<Rightarrow> gateway_state \<Rightarrow> gateway_state" where
  "initialize_response jwtDecode k response s =
     (if k < length (initializations s) then
        (case initializations s ! k of
           RefreshPending \<Rightarrow>
             (case refresh_finish jwtDecode response (auth s) of
                (r, a) \<Rightarrow> s\<lparr>auth := a, initializations := (initializations s)[k := RefreshSettled r]\<rparr>)
         | _ \<Rightarrow> s)
      else s)"

text \<open>An \<^verbatim>\<open>initialize()\<close> resumes after its \<^verbatim>\<open>await refreshAccessToken()\<close>.\<close>

definition initialize_continue :: "nat \<Rightarrow> gateway_state \<Rightarrow> gateway_state" where
  "initialize_continue k s =
     (if k < length (initializations s) then
        (case initializations s ! k of
           RefreshSettled r \<Rightarrow>
             s\<lparr>auth := initialize_resume r (auth s),
               initializations := (initializations s)[k := RefreshDone]\<rparr>
         | _ \<Rightarrow> s)
      else s)"

subsection \<open>Schedules\<close>

text \<open>
  The event loop runs one synchronous segment at a time. An event names the segment that
  runs next: a call of \<^verbatim>\<open>useAuthApi()\<close> (on the client or not, at a time), a gateway
  call (its caller, the instance it is made on, the time and the arguments), a network
  answer, or the continuation of an \<^verbatim>\<open>await\<close>. An event that is not enabled leaves the
  state as it is; a gateway call is enabled on an instance that exists, for a caller that
  has made no call yet.
\<close>

datatype event =
    UseAuthApi bool int
  | Call nat nat int Method string "string option" fetch_options
  | RefreshResponse nat "message + AuthTokens"
  | IifeResume nat
  | Resume nat
  | Response nat http_result
  | LogoutResponse nat "message + unit"
  | ResumeAfterLogout nat
  | InitializeResponse nat "message + AuthTokens"
  | InitializeResume nat

definition step :: "string \<Rightarrow> (string \<Rightarrow> message + JwtPayload) \<Rightarrow> gateway_state \<Rightarrow> event \<Rightarrow> gateway_state" where
  "step apiBase jwtDecode s e =
     (case e of
        UseAuthApi client now \<Rightarrow> useAuthApi client jwtDecode now s
      | Call i k now method url data options \<Rightarrow>
          (if k < length (initializations s) then
             (case callers s i of
                Idle \<Rightarrow> request apiBase jwtDecode now i k method url data options s
              | _ \<Rightarrow> s)
           else s)
      | RefreshResponse h r \<Rightarrow> refresh_response jwtDecode h r s
      | IifeResume h \<Rightarrow> iife_resume h s
      | Resume i \<Rightarrow> onRequest_resume i s
      | Response i res \<Rightarrow> fetch_finish i res s
      | LogoutResponse k r \<Rightarrow> logout_response k r s
      | ResumeAfterLogout i \<Rightarrow> onResponseError_resume i s
      | InitializeResponse k r \<Rightarrow> initialize_response jwtDecode k r s
      | InitializeResume k \<Rightarrow> initialize_continue k s)"

definition run :: "string \<Rightarrow> (string \<Rightarrow> message + JwtPayload) \<Rightarrow> gateway_state \<Rightarrow> event list \<Rightarrow> gateway_state" where
  "run apiBase jwtDecode s es = foldl (step apiBase jwtDecode) s es"

text \<open>
  The gateway before any call of \<^verbatim>\<open>useAuthApi()\<close>: no instance, no refresh in flight,
  every caller idle.
\<close>

definition initial :: "auth_state \<Rightarrow> gateway_state" where
  "initial a =
     \<lparr> auth = a, refreshQueue = None, refreshes = [], initializations = [], logouts = [],
       callers = (\<lambda>i. Idle), navigations = [], hooksRun = [] \<rparr>"


section \<open>Example inputs\<close>

text \<open>
  A decoder that accepts two tokens, the first expiring at second 2000 (so that the
  threshold of its expiry check is millisecond 1990000) and a later one; the empty session
  and a session signed in with the first token; answers, calls and schedules that the
  closed theorems below evaluate.
\<close>

definition example_jwtDecode :: "string \<Rightarrow> message + JwtPayload" where
  "example_jwtDecode t =
     (if t = ''valid.jwt''
      then Inr \<lparr> sub = ''u1'', exp = 2000, iat = 1000, roles = Some [''admin''], email = ''a@b.c'' \<rparr>
      else if t = ''fresh.jwt''
      then Inr \<lparr> sub = ''u1'', exp = 9000, iat = 5000, roles = Some [''admin''], email = ''a@b.c'' \<rparr>
      else Inl ''Invalid token specified'')"


definition empty_session :: auth_state where
  "empty_session =
     \<lparr> accessToken = None, refreshToken = None, user = None, loading = False,
       expiredMemo = (\<lambda>k. None), requests = [], consoleErrors = [], loadingWrites = [] \<rparr>"

definition example_session :: auth_state where
  "example_session =
     \<lparr> accessToken = Some ''valid.jwt'', refreshToken = Some ''r1'',
       user = Some \<lparr> user_id = ''u1'', user_roles = [''admin''], user_email = ''a@b.c'' \<rparr>,
       loading = False, expiredMemo = (\<lambda>k. None), requests = [], consoleErrors = [],
       loadingWrites = [] \<rparr>"

definition undecodable_tokens :: "message + AuthTokens" where
  "undecodable_tokens = Inr \<lparr> newAccessToken = ''garbage'', newRefreshToken = ''r9'' \<rparr>"

text \<open>
  A gateway call: who makes it, on which instance, when, and the arguments of
  \<^verbatim>\<open>request\<close>.
\<close>

record gateway_call =
  caller :: nat
  api :: nat
  call_time :: int
  call_method :: Method
  call_url :: string
  call_data :: "string option"
  call_options :: fetch_options




definition failed_refresh_schedule :: "event list" where
  "failed_refresh_schedule =
     [UseAuthApi True 5000000,
      Call 0 0 5000001 GET ''/api/items'' None Map.empty,
      Call 1 0 5000002 GET ''/api/me'' None Map.empty,
      RefreshResponse 0 (Inl ''Refresh token revoked''),
      IifeResume 0,
      Resume 0,
      Resume 1]"

text \<open>
  The gateway after that call of \<^verbatim>\<open>useAuthApi()\<close>, after a burst of three calls on its
  object, and after the refresh endpoint has answered with a new token, the closure has
  finished and the three callers have resumed.
\<close>

definition example_gateway :: gateway_state where
  "example_gateway =
     run ''https://api.test'' example_jwtDecode (initial example_session) [UseAuthApi True 5000000]"



text \<open>
  In the browser, while the token is still valid, a component calls \<^verbatim>\<open>useAuthApi()\<close>;
  it makes a gateway call on that object after the token has expired.
\<close>

definition stale_schedule :: "event list" where
  "stale_schedule =
     [UseAuthApi True 1000000,
      Call 0 0 5000000 GET ''/api/items'' None Map.empty]"

definition caller_hooks :: fetch_options where
  "caller_hooks = [''onRequest'' \<mapsto> Hook (CallerHandler 7),
                   ''onResponseError'' \<mapsto> Hook (CallerHandler 8)]"

section \<open>The session invariant\<close>

text \<open>
  The user is present exactly when the access token is present and decodes; and, as a
  consequence the data model draws from it, the access token and the user are present
  together or absent together.
\<close>

definition session_invariant :: "(string \<Rightarrow> message + JwtPayload) \<Rightarrow> auth_state \<Rightarrow> bool" where
  "session_invariant jwtDecode s =
     ((user s \<noteq> None) =
      (truthy (accessToken s) \<and>
       (case accessToken s of
          None \<Rightarrow> False
        | Some t \<Rightarrow> (case jwtDecode t of Inl m \<Rightarrow> False | Inr payload \<Rightarrow> True))))"

definition tokens_user_consistent :: "auth_state \<Rightarrow> bool" where
  "tokens_user_consistent s = (truthy (accessToken s) = (user s \<noteq> None))"

section \<open>Observations on the gateway\<close>

text \<open>
  A function that awaits a refresh is unfinished until it has resumed and run to its end;
  its refresh request is outstanding while it is pending. The coordinator is in order
  when the handle in \<^verbatim>\<open>refreshQueue\<close> names exactly the unfinished refresh closure, and
  every caller suspended in the request hook waits for a closure that exists.
\<close>

definition unfinished :: "refresh_state \<Rightarrow> bool" where
  "unfinished r = (case r of RefreshDone \<Rightarrow> False | _ \<Rightarrow> True)"

definition pending :: "refresh_state \<Rightarrow> bool" where
  "pending r = (case r of RefreshPending \<Rightarrow> True | _ \<Rightarrow> False)"


definition coordinated :: "gateway_state \<Rightarrow> bool" where
  "coordinated s =
     ((\<forall>h < length (refreshes s). unfinished (refreshes s ! h) = (refreshQueue s = Some h))
      \<and> (\<forall>h. refreshQueue s = Some h \<longrightarrow> h < length (refreshes s))
      \<and> (\<forall>i h url fo. callers s i = AwaitingRefresh h url fo \<longrightarrow> h < length (refreshes s)))"

text \<open>
  A caller waits for handle \<open>h\<close> with its request for \<open>url\<close> when it is suspended at
  \<^verbatim>\<open>await refreshQueue\<close> on that handle.
\<close>

definition waits_for :: "nat \<Rightarrow> string \<Rightarrow> caller_state \<Rightarrow> bool" where
  "waits_for h url c = (case c of AwaitingRefresh h' url' fo \<Rightarrow> h' = h \<and> url' = url | _ \<Rightarrow> False)"


text \<open>What a call sent: the URL of its request and the Authorization header.\<close>

definition dispatched_url :: "caller_state \<Rightarrow> string option" where
  "dispatched_url c = (case c of Dispatched url fo \<Rightarrow> Some url | _ \<Rightarrow> None)"

definition authorization_sent :: "caller_state \<Rightarrow> string option" where
  "authorization_sent c =
     (case c of Dispatched url fo \<Rightarrow> headers_or_empty fo ''Authorization'' | _ \<Rightarrow> None)"

section \<open>Properties of the session operations\<close>

lemma set_loading_fields [simp]:
  "accessToken (set_loading b s) = accessToken s"
  "refreshToken (set_loading b s) = refreshToken s"
  "user (set_loading b s) = user s"
  "expiredMemo (set_loading b s) = expiredMemo s"
  "requests (set_loading b s) = requests s"
  "consoleErrors (set_loading b s) = consoleErrors s"
  "loading (set_loading b s) = b"
  "loadingWrites (set_loading b s) = loadingWrites s @ [b]"
  by (simp_all add: set_loading_def)

lemma set_accessToken_fields [simp]:
  "accessToken (set_accessToken v s) = v"
  "refreshToken (set_accessToken v s) = refreshToken s"
  "user (set_accessToken v s) = user s"
  "requests (set_accessToken v s) = requests s"
  "consoleErrors (set_accessToken v s) = consoleErrors s"
  "loading (set_accessToken v s) = loading s"
  "loadingWrites (set_accessToken v s) = loadingWrites s"
  by (simp_all add: set_accessToken_def)

lemma read_isTokenExpired_fields [simp]:
  "accessToken (read_isTokenExpired jwtDecode now k s) = accessToken s"
  "refreshToken (read_isTokenExpired jwtDecode now k s) = refreshToken s"
  "user (read_isTokenExpired jwtDecode now k s) = user s"
  "requests (read_isTokenExpired jwtDecode now k s) = requests s"
  "consoleErrors (read_isTokenExpired jwtDecode now k s) = consoleErrors s"
  "loading (read_isTokenExpired jwtDecode now k s) = loading s"
  "loadingWrites (read_isTokenExpired jwtDecode now k s) = loadingWrites s"
  by (simp_all add: read_isTokenExpired_def)

lemma isTokenExpired_getter_cong:
  "accessToken a' = accessToken a \<Longrightarrow>
     isTokenExpired_getter jwtDecode now a' = isTokenExpired_getter jwtDecode now a"
  by (simp add: isTokenExpired_getter_def)

lemma isTokenExpired_cong:
  "accessToken a' = accessToken a \<Longrightarrow> expiredMemo a' k = expiredMemo a k \<Longrightarrow>
     isTokenExpired jwtDecode now k a' = isTokenExpired jwtDecode now k a"
  by (simp add: isTokenExpired_def isTokenExpired_getter_cong [of a' a] split: option.split)

lemma isTokenExpired_set_loading [simp]:
  "isTokenExpired jwtDecode now k (set_loading b s) = isTokenExpired jwtDecode now k s"
  by (rule isTokenExpired_cong) simp_all

lemma isTokenExpired_getter_threshold:
  "(\<not> truthy (accessToken s) \<longrightarrow> isTokenExpired_getter jwtDecode now s)
   \<and> (truthy (accessToken s) \<and> accessToken s = Some t \<and> jwtDecode t = Inl m
        \<longrightarrow> isTokenExpired_getter jwtDecode now s)
   \<and> (truthy (accessToken s) \<and> accessToken s = Some t \<and> jwtDecode t = Inr payload
        \<longrightarrow> isTokenExpired_getter jwtDecode now s = (now \<ge> exp payload * 1000 - 10000)
            \<and> \<not> isTokenExpired_getter jwtDecode (exp payload * 1000 - 10000 - 1) s
            \<and> isTokenExpired_getter jwtDecode (exp payload * 1000 - 10000) s)"
  by (simp add: isTokenExpired_getter_def)

lemma isTokenExpired_first_read:
  "expiredMemo s k = None \<Longrightarrow> isTokenExpired jwtDecode now k s = isTokenExpired_getter jwtDecode now s"
  by (simp add: isTokenExpired_def)

lemma isTokenExpired_reread:
  "isTokenExpired jwtDecode now' k (read_isTokenExpired jwtDecode now k s) = isTokenExpired jwtDecode now k s"
  by (simp add: isTokenExpired_def read_isTokenExpired_def)

text \<open>
  Claim C3 at a failing input. The getter computes what the claim says (the lemma above),
  but \<^verbatim>\<open>isTokenExpired\<close> is read through \<^verbatim>\<open>computed()\<close>: on one instance, with the
  access token unchanged, a first read at millisecond 1000000 gives false and memoises it,
  and every later read gives false again, at the threshold 1990000 and long after it. An
  object made by \<^verbatim>\<open>useAuthApi()\<close> in the browser while the token was valid therefore
  sends a request with the expired token and starts no refresh.
\<close>

theorem isTokenExpired_memoised_stale:
  "expiredMemo example_session 0 = None
   \<and> \<not> isTokenExpired example_jwtDecode 1000000 0 example_session
   \<and> accessToken (read_isTokenExpired example_jwtDecode 1000000 0 example_session) = Some ''valid.jwt''
   \<and> example_jwtDecode ''valid.jwt''
       = Inr \<lparr> sub = ''u1'', exp = 2000, iat = 1000, roles = Some [''admin''], email = ''a@b.c'' \<rparr>
   \<and> \<not> isTokenExpired example_jwtDecode 1990000 0
         (read_isTokenExpired example_jwtDecode 1000000 0 example_session)
   \<and> \<not> isTokenExpired example_jwtDecode 5000000 0
         (read_isTokenExpired example_jwtDecode 1000000 0 example_session)
   \<and> isTokenExpired_getter example_jwtDecode 5000000
         (read_isTokenExpired example_jwtDecode 1000000 0 example_session)
   \<and> requests (auth (run ''https://api.test'' example_jwtDecode (initial example_session)
         stale_schedule)) = [''/api/items'']
   \<and> refreshes (run ''https://api.test'' example_jwtDecode (initial example_session)
         stale_schedule) = []
   \<and> authorization_sent (callers (run ''https://api.test'' example_jwtDecode
         (initial example_session) stale_schedule) 0) = Some ''Bearer valid.jwt''"
  by (simp add: isTokenExpired_def isTokenExpired_getter_def read_isTokenExpired_def
        example_session_def example_jwtDecode_def truthy_def stale_schedule_def run_def step_def
        initial_def useAuthApi_def useAuth_def initialize_start_def initialize_finally_def
        set_loading_def parseUserFromToken_def request_def isAuthenticated_def fetch_start_def
        request_options_def createFetchOptions_def onRequest_def dispatch_def
        authorization_sent_def headers_or_empty_def bearer_def Let_def)

text \<open>
  Claim C4. \<^verbatim>\<open>logout\<close> never fails, and whatever the logout endpoint answers (or
  when no request is made at all) the access token, the refresh token and the user are
  absent when it returns. The same holds for its continuation after the network call
  alone, from any state in which it resumes.
\<close>

theorem logout_always_clears:
  "fst (logout response s) = Inr ()
   \<and> accessToken (snd (logout response s)) = None
   \<and> refreshToken (snd (logout response s)) = None
   \<and> user (snd (logout response s)) = None
   \<and> fst (logout_finish response s) = Inr ()
   \<and> accessToken (snd (logout_finish response s)) = None
   \<and> refreshToken (snd (logout_finish response s)) = None
   \<and> user (snd (logout_finish response s)) = None"
  by (simp add: logout_def logout_start_def logout_finish_def logout_finally_def set_loading_def set_accessToken_def Let_def
         split: sum.split)

text \<open>
  Claim C5. Without a refresh token \<^verbatim>\<open>refreshAccessToken\<close> fails in its first
  segment, before any request, with \<^verbatim>\<open>REFRESH_FAILED\<close> and the message
  "No refresh token available"; the state, which includes the list of requests issued,
  is the one it started from.
\<close>

theorem refreshAccessToken_without_refresh_token:
  "\<not> truthy (refreshToken s) \<Longrightarrow>
     refresh_start s = Settled (Inl (AuthError REFRESH_FAILED ''No refresh token available'')) s
     \<and> refreshAccessToken jwtDecode response s =
         (Inl (AuthError REFRESH_FAILED ''No refresh token available''), s)"
  by (simp add: refreshAccessToken_def refresh_start_def)

theorem refreshAccessToken_without_refresh_token_witness:
  "\<not> truthy (refreshToken empty_session)
   \<and> refreshAccessToken example_jwtDecode (Inr \<lparr> newAccessToken = ''valid.jwt'', newRefreshToken = ''r2'' \<rparr>)
        empty_session
      = (Inl (AuthError REFRESH_FAILED ''No refresh token available''), empty_session)
   \<and> requests (snd (refreshAccessToken example_jwtDecode
        (Inr \<lparr> newAccessToken = ''valid.jwt'', newRefreshToken = ''r2'' \<rparr>) empty_session)) = []"
proof -
  have h: "\<not> truthy (refreshToken empty_session)"
    by (simp add: truthy_def empty_session_def)
  from refreshAccessToken_without_refresh_token [OF h, of example_jwtDecode
      "Inr \<lparr> newAccessToken = ''valid.jwt'', newRefreshToken = ''r2'' \<rparr>"]
  show ?thesis using h by (simp add: empty_session_def)
qed

text \<open>
  Claim C10. The first assignment that \<^verbatim>\<open>login\<close>, \<^verbatim>\<open>logout\<close> and
  \<^verbatim>\<open>initialize\<close> make to the loading flag is \<open>True\<close> and their last is \<open>False\<close>,
  and they make no other. \<^verbatim>\<open>login\<close> always awaits its request; \<^verbatim>\<open>logout\<close> awaits
  exactly when a refresh token is present; \<^verbatim>\<open>initialize\<close> awaits exactly when an access
  token is present and read as expired (also when \<^verbatim>\<open>refreshAccessToken\<close> rejects at
  once). While they await, the flag is true and \<open>True\<close> is the one value they have
  assigned. When they settle, at once or after the await, with a result or with an error,
  and from whatever state the continuation resumes in, the flag is false.
\<close>

theorem loading_flag_brackets_operations:
  "loading (login_start s) \<and> loadingWrites (login_start s) = loadingWrites s @ [True]
   \<and> \<not> loading (snd (login_finish jwtDecode tokens s'))
   \<and> loadingWrites (snd (login_finish jwtDecode tokens s')) = loadingWrites s' @ [False]
   \<and> \<not> loading (snd (login jwtDecode tokens s))
   \<and> loadingWrites (snd (login jwtDecode tokens s)) = loadingWrites s @ [True, False]
   \<and> (truthy (refreshToken s) \<longrightarrow>
         (\<exists>s1. logout_start s = Awaiting s1 \<and> loading s1
               \<and> loadingWrites s1 = loadingWrites s @ [True]))
   \<and> (\<not> truthy (refreshToken s) \<longrightarrow>
         (\<exists>s1. logout_start s = Settled (Inr ()) s1 \<and> \<not> loading s1
               \<and> loadingWrites s1 = loadingWrites s @ [True, False]))
   \<and> \<not> loading (snd (logout_finish answer s'))
   \<and> loadingWrites (snd (logout_finish answer s')) = loadingWrites s' @ [False]
   \<and> \<not> loading (snd (logout answer s))
   \<and> loadingWrites (snd (logout answer s)) = loadingWrites s @ [True, False]
   \<and> (truthy (accessToken s) \<and> isTokenExpired jwtDecode now k s \<longrightarrow>
         fst (initialize_start jwtDecode now k s) \<noteq> RefreshDone
         \<and> loading (snd (initialize_start jwtDecode now k s))
         \<and> loadingWrites (snd (initialize_start jwtDecode now k s)) = loadingWrites s @ [True])
   \<and> (\<not> (truthy (accessToken s) \<and> isTokenExpired jwtDecode now k s) \<longrightarrow>
         fst (initialize_start jwtDecode now k s) = RefreshDone
         \<and> \<not> loading (snd (initialize_start jwtDecode now k s))
         \<and> loadingWrites (snd (initialize_start jwtDecode now k s)) = loadingWrites s @ [True, False])
   \<and> loading (snd (refresh_finish jwtDecode tokens s')) = loading s'
   \<and> loadingWrites (snd (refresh_finish jwtDecode tokens s')) = loadingWrites s'
   \<and> \<not> loading (initialize_resume r s')
   \<and> loadingWrites (initialize_resume r s') = loadingWrites s' @ [False]
   \<and> \<not> loading (initialize jwtDecode now k tokens s)
   \<and> loadingWrites (initialize jwtDecode now k tokens s) = loadingWrites s @ [True, False]"
proof -
  have login1: "loading (login_start s) \<and> loadingWrites (login_start s) = loadingWrites s @ [True]"
    by (simp add: login_start_def set_loading_def)
  have login2: "\<not> loading (snd (login_finish jwtDecode tokens x))
      \<and> loadingWrites (snd (login_finish jwtDecode tokens x)) = loadingWrites x @ [False]" for x
    by (simp add: login_finish_def set_loading_def set_accessToken_def Let_def split: sum.split)
  have login3: "\<not> loading (snd (login jwtDecode tokens s))
      \<and> loadingWrites (snd (login jwtDecode tokens s)) = loadingWrites s @ [True, False]"
    using login1 login2 [of "login_start s"] by (simp add: login_def)
  have fin: "\<not> loading (logout_finally x) \<and> loadingWrites (logout_finally x) = loadingWrites x @ [False]" for x
    by (simp add: logout_finally_def set_loading_def set_accessToken_def Let_def)
  have logout1: "truthy (refreshToken s) \<longrightarrow>
         (\<exists>s1. logout_start s = Awaiting s1 \<and> loading s1
               \<and> loadingWrites s1 = loadingWrites s @ [True])"
    by (simp add: logout_start_def set_loading_def Let_def)
  have logout2: "\<not> truthy (refreshToken s) \<longrightarrow>
         (\<exists>s1. logout_start s = Settled (Inr ()) s1 \<and> \<not> loading s1
               \<and> loadingWrites s1 = loadingWrites s @ [True, False])"
    using fin [of "set_loading True s"]
    by (simp add: logout_start_def set_loading_def Let_def)
  have logout3: "\<not> loading (snd (logout_finish answer x))
      \<and> loadingWrites (snd (logout_finish answer x)) = loadingWrites x @ [False]" for x
    using fin by (simp add: logout_finish_def split: sum.split)
  have logout4: "\<not> loading (snd (logout answer s))
      \<and> loadingWrites (snd (logout answer s)) = loadingWrites s @ [True, False]"
  proof (cases "truthy (refreshToken s)")
    case True
    with logout1 obtain s1 where "logout_start s = Awaiting s1"
        "loadingWrites s1 = loadingWrites s @ [True]" by blast
    with logout3 [of s1] show ?thesis by (simp add: logout_def)
  next
    case False
    with logout2 show ?thesis by (auto simp add: logout_def)
  qed
  have ifin: "\<not> loading (initialize_finally x)
      \<and> loadingWrites (initialize_finally x) = loadingWrites x @ [False]" for x
    by (simp add: initialize_finally_def set_loading_def)
  have icatch: "loadingWrites (initialize_catch x) = loadingWrites x" for x
    by (simp add: initialize_catch_def set_accessToken_def Let_def)
  have start: "initialize_start jwtDecode now k s =
      (if truthy (accessToken s) then
         if isTokenExpired jwtDecode now k s then
           (case refresh_start (read_isTokenExpired jwtDecode now k (set_loading True s)) of
              Settled r' s3 \<Rightarrow> (RefreshSettled r', s3)
            | Awaiting s3 \<Rightarrow> (RefreshPending, s3))
         else
           (case accessToken s of
              None \<Rightarrow> (RefreshDone, initialize_finally (set_loading True s))
            | Some t \<Rightarrow>
               (case parseUserFromToken jwtDecode t of
                  Inl m \<Rightarrow> (RefreshDone, initialize_finally (initialize_catch
                              (read_isTokenExpired jwtDecode now k (set_loading True s))))
                | Inr u \<Rightarrow> (RefreshDone, initialize_finally
                              ((read_isTokenExpired jwtDecode now k (set_loading True s))\<lparr>user := Some u\<rparr>))))
       else (RefreshDone, initialize_finally (set_loading True s)))"
    by (simp add: initialize_start_def truthy_def Let_def split: option.split)
  have rs: "(case refresh_start x of Settled r' s3 \<Rightarrow> (RefreshSettled r', s3)
              | Awaiting s3 \<Rightarrow> (RefreshPending, s3)) = (st, y)
            \<Longrightarrow> st \<noteq> RefreshDone \<and> loading y = loading x \<and> loadingWrites y = loadingWrites x" for x st y
    by (auto simp add: refresh_start_def split: if_splits)
  have init1: "truthy (accessToken s) \<and> isTokenExpired jwtDecode now k s \<longrightarrow>
         fst (initialize_start jwtDecode now k s) \<noteq> RefreshDone
         \<and> loading (snd (initialize_start jwtDecode now k s))
         \<and> loadingWrites (snd (initialize_start jwtDecode now k s)) = loadingWrites s @ [True]"
  proof
    assume a: "truthy (accessToken s) \<and> isTokenExpired jwtDecode now k s"
    obtain st y where e: "initialize_start jwtDecode now k s = (st, y)"
      by (cases "initialize_start jwtDecode now k s")
    with a start have "(case refresh_start (read_isTokenExpired jwtDecode now k (set_loading True s)) of
              Settled r' s3 \<Rightarrow> (RefreshSettled r', s3)
            | Awaiting s3 \<Rightarrow> (RefreshPending, s3)) = (st, y)" by simp
    from rs [OF this] e
    show "fst (initialize_start jwtDecode now k s) \<noteq> RefreshDone
         \<and> loading (snd (initialize_start jwtDecode now k s))
         \<and> loadingWrites (snd (initialize_start jwtDecode now k s)) = loadingWrites s @ [True]"
      by simp
  qed
  have init2: "\<not> (truthy (accessToken s) \<and> isTokenExpired jwtDecode now k s) \<longrightarrow>
         fst (initialize_start jwtDecode now k s) = RefreshDone
         \<and> \<not> loading (snd (initialize_start jwtDecode now k s))
         \<and> loadingWrites (snd (initialize_start jwtDecode now k s)) = loadingWrites s @ [True, False]"
    unfolding start using ifin icatch
    by (simp split: option.split sum.split)
  have rf: "loading (snd (refresh_finish jwtDecode tokens x)) = loading x
      \<and> loadingWrites (snd (refresh_finish jwtDecode tokens x)) = loadingWrites x" for x
    by (simp add: refresh_finish_def set_accessToken_def Let_def split: sum.split)
  have resume: "\<not> loading (initialize_resume r x)
      \<and> loadingWrites (initialize_resume r x) = loadingWrites x @ [False]" for r x
    using ifin icatch by (simp add: initialize_resume_def split: sum.split)
  have init3: "\<not> loading (initialize jwtDecode now k tokens s)
      \<and> loadingWrites (initialize jwtDecode now k tokens s) = loadingWrites s @ [True, False]"
  proof (cases "truthy (accessToken s) \<and> isTokenExpired jwtDecode now k s")
    case False
    with init2 show ?thesis
      by (cases "initialize_start jwtDecode now k s") (simp add: initialize_def)
  next
    case True
    obtain st s1 where st: "initialize_start jwtDecode now k s = (st, s1)"
      by (cases "initialize_start jwtDecode now k s")
    with True init1 have w: "st \<noteq> RefreshDone" "loadingWrites s1 = loadingWrites s @ [True]"
      by simp_all
    show ?thesis
    proof (cases st)
      case RefreshDone
      with w show ?thesis by simp
    next
      case (RefreshSettled r')
      with st w resume [of r' s1] show ?thesis by (simp add: initialize_def)
    next
      case RefreshPending
      obtain r' s2 where f: "refresh_finish jwtDecode tokens s1 = (r', s2)"
        by (cases "refresh_finish jwtDecode tokens s1")
      with rf [of s1] have "loadingWrites s2 = loadingWrites s1" by simp
      with RefreshPending st w f resume [of r' s2] show ?thesis by (simp add: initialize_def)
    qed
  qed
  show ?thesis
    using login1 login2 login3 logout1 logout2 logout3 logout4 init1 init2 rf resume init3
    by blast
qed

theorem loading_flag_brackets_operations_witness:
  "truthy (refreshToken example_session)
   \<and> logout_start example_session =
       Awaiting (example_session\<lparr>loading := True, requests := [''/api/auth/logout''],
                   loadingWrites := [True]\<rparr>)
   \<and> loadingWrites (snd (logout (Inl ''offline'') example_session)) = [True, False]
   \<and> \<not> truthy (refreshToken empty_session)
   \<and> loadingWrites (snd (logout (Inr ()) empty_session)) = [True, False]
   \<and> \<not> loading (snd (logout (Inr ()) empty_session))
   \<and> truthy (accessToken example_session)
   \<and> isTokenExpired example_jwtDecode 5000000 0 example_session
   \<and> fst (initialize_start example_jwtDecode 5000000 0 example_session) = RefreshPending
   \<and> loading (snd (initialize_start example_jwtDecode 5000000 0 example_session))
   \<and> loadingWrites (initialize example_jwtDecode 5000000 0 (Inl ''offline'') example_session)
       = [True, False]
   \<and> \<not> isTokenExpired example_jwtDecode 1000000 0 example_session
   \<and> fst (initialize_start example_jwtDecode 1000000 0 example_session) = RefreshDone
   \<and> loadingWrites (snd (initialize_start example_jwtDecode 1000000 0 example_session))
       = [True, False]
   \<and> loadingWrites (snd (login example_jwtDecode (Inl ''offline'') empty_session)) = [True, False]"
proof -
  have h1: "truthy (refreshToken example_session)" "\<not> truthy (refreshToken empty_session)"
      "truthy (accessToken example_session)"
    by (simp_all add: truthy_def example_session_def empty_session_def)
  have h2: "isTokenExpired example_jwtDecode 5000000 0 example_session"
      "\<not> isTokenExpired example_jwtDecode 1000000 0 example_session"
    by (simp_all add: isTokenExpired_def isTokenExpired_getter_def truthy_def example_session_def
          example_jwtDecode_def)
  have w: "loadingWrites example_session = []" "loadingWrites empty_session = []"
    by (simp_all add: example_session_def empty_session_def)
  have a: "logout_start example_session =
       Awaiting (example_session\<lparr>loading := True, requests := [''/api/auth/logout''],
                   loadingWrites := [True]\<rparr>)"
    by (simp add: logout_start_def set_loading_def truthy_def example_session_def)
  have b: "fst (initialize_start example_jwtDecode 5000000 0 example_session) = RefreshPending"
    by (simp add: initialize_start_def set_loading_def read_isTokenExpired_def isTokenExpired_def
          isTokenExpired_getter_def refresh_start_def truthy_def example_session_def
          example_jwtDecode_def Let_def)
  note t1 = loading_flag_brackets_operations
    [of example_session example_jwtDecode "Inl ''offline''" example_session "Inl ''offline''"
        5000000 0 "Inl undefined"]
  note t2 = loading_flag_brackets_operations
    [of empty_session example_jwtDecode "Inl ''offline''" empty_session "Inr ()"
        1000000 0 "Inl undefined"]
  note t3 = loading_flag_brackets_operations
    [of example_session example_jwtDecode "Inl ''offline''" example_session "Inr ()"
        1000000 0 "Inl undefined"]
  from t1 h1 h2 w have c1: "loadingWrites (snd (logout (Inl ''offline'') example_session)) = [True, False]"
      "loading (snd (initialize_start example_jwtDecode 5000000 0 example_session))"
      "loadingWrites (initialize example_jwtDecode 5000000 0 (Inl ''offline'') example_session)
         = [True, False]"
    by simp_all
  from t2 h1 w have c2: "loadingWrites (snd (logout (Inr ()) empty_session)) = [True, False]"
      "\<not> loading (snd (logout (Inr ()) empty_session))"
      "loadingWrites (snd (login example_jwtDecode (Inl ''offline'') empty_session)) = [True, False]"
    by simp_all
  from t3 h1 h2 w have c3: "fst (initialize_start example_jwtDecode 1000000 0 example_session) = RefreshDone"
      "loadingWrites (snd (initialize_start example_jwtDecode 1000000 0 example_session))
         = [True, False]"
    by simp_all
  show ?thesis using h1 h2 a b c1 c2 c3 by simp
qed

text \<open>
  Claim C7, as stated, fails: when the refresh endpoint answers with an access token that
  does not decode, \<^verbatim>\<open>refreshAccessToken\<close> fails with \<^verbatim>\<open>REFRESH_FAILED\<close> after it
  has stored that token, so the access token is not the one from before the call.
\<close>

theorem refresh_undecodable_token_counterexample:
  "truthy (refreshToken example_session)
   \<and> fst (refreshAccessToken example_jwtDecode
            (Inr \<lparr> newAccessToken = ''garbage'', newRefreshToken = ''r2'' \<rparr>) example_session)
       = Inl (AuthError REFRESH_FAILED ''Invalid token specified'')
   \<and> accessToken (snd (refreshAccessToken example_jwtDecode
            (Inr \<lparr> newAccessToken = ''garbage'', newRefreshToken = ''r2'' \<rparr>) example_session))
       = Some ''garbage''
   \<and> accessToken example_session = Some ''valid.jwt''"
  by (simp add: refreshAccessToken_def refresh_start_def refresh_finish_def parseUserFromToken_def
        example_jwtDecode_def example_session_def truthy_def or_default_def set_accessToken_def)

text \<open>
  Claim C7, amended. With a refresh token present, a failing \<^verbatim>\<open>refreshAccessToken\<close>
  fails with \<^verbatim>\<open>REFRESH_FAILED\<close> and leaves the refresh token as it was; when the
  failure is that of the refresh request itself, the access token and the user are as
  they were as well.
\<close>

theorem refreshAccessToken_failure_state:
  "truthy (refreshToken s) \<Longrightarrow> fst (refreshAccessToken jwtDecode response s) = Inl e \<Longrightarrow>
     (\<exists>m. e = AuthError REFRESH_FAILED m)
     \<and> refreshToken (snd (refreshAccessToken jwtDecode response s)) = refreshToken s
     \<and> (\<forall>m. response = Inl m \<longrightarrow>
          accessToken (snd (refreshAccessToken jwtDecode response s)) = accessToken s
          \<and> user (snd (refreshAccessToken jwtDecode response s)) = user s)"
  by (auto simp add: refreshAccessToken_def refresh_start_def refresh_finish_def
         set_accessToken_def Let_def split: sum.splits)

theorem refreshAccessToken_failure_state_witness:
  "truthy (refreshToken example_session)
   \<and> fst (refreshAccessToken example_jwtDecode (Inl ''Network down'') example_session)
       = Inl (AuthError REFRESH_FAILED ''Network down'')
   \<and> refreshToken (snd (refreshAccessToken example_jwtDecode (Inl ''Network down'') example_session))
       = refreshToken example_session
   \<and> accessToken (snd (refreshAccessToken example_jwtDecode (Inl ''Network down'') example_session))
       = accessToken example_session
   \<and> user (snd (refreshAccessToken example_jwtDecode (Inl ''Network down'') example_session))
       = user example_session"
proof -
  have h1: "truthy (refreshToken example_session)"
    by (simp add: truthy_def example_session_def)
  have h2: "fst (refreshAccessToken example_jwtDecode (Inl ''Network down'') example_session)
       = Inl (AuthError REFRESH_FAILED ''Network down'')"
    by (simp add: refreshAccessToken_def refresh_start_def refresh_finish_def truthy_def
          example_session_def or_default_def)
  from refreshAccessToken_failure_state [OF h1 h2] h1 h2 show ?thesis by simp
qed

text \<open>
  Claim C8 at two inputs. A login whose returned access token does not decode fails with
  \<^verbatim>\<open>INVALID_CREDENTIALS\<close> after both tokens are stored and before the user is. From
  the empty session this leaves an access token present with the user absent; from a
  signed-in session it leaves the previous user beside an access token that does not
  decode. Both start states satisfy the invariant.
\<close>

theorem login_undecodable_token_breaks_invariant:
  "session_invariant example_jwtDecode empty_session
   \<and> tokens_user_consistent empty_session
   \<and> fst (login example_jwtDecode undecodable_tokens empty_session)
       = Inl (AuthError INVALID_CREDENTIALS ''Invalid token specified'')
   \<and> accessToken (snd (login example_jwtDecode undecodable_tokens empty_session)) = Some ''garbage''
   \<and> user (snd (login example_jwtDecode undecodable_tokens empty_session)) = None
   \<and> \<not> tokens_user_consistent (snd (login example_jwtDecode undecodable_tokens empty_session))
   \<and> session_invariant example_jwtDecode example_session
   \<and> tokens_user_consistent example_session
   \<and> accessToken (snd (login example_jwtDecode undecodable_tokens example_session)) = Some ''garbage''
   \<and> user (snd (login example_jwtDecode undecodable_tokens example_session)) = user example_session
   \<and> \<not> session_invariant example_jwtDecode (snd (login example_jwtDecode undecodable_tokens example_session))"
  by (simp add: session_invariant_def tokens_user_consistent_def undecodable_tokens_def
        login_def login_start_def login_finish_def set_loading_def set_accessToken_def
        parseUserFromToken_def example_jwtDecode_def empty_session_def example_session_def
        truthy_def or_default_def)

text \<open>
  Outside that path the operations keep the invariant: \<^verbatim>\<open>logout\<close> and
  \<^verbatim>\<open>initialize\<close> always, \<^verbatim>\<open>login\<close> and \<^verbatim>\<open>refreshAccessToken\<close> when they
  succeed or when their request fails. The decoder is assumed to reject the empty string.
\<close>

lemma invariant_cong:
  assumes "accessToken a' = accessToken a" and "user a' = user a"
  shows "session_invariant jwtDecode a' = session_invariant jwtDecode a"
    and "tokens_user_consistent a' = tokens_user_consistent a"
  using assms by (simp_all add: session_invariant_def tokens_user_consistent_def)

lemma invariant_cleared:
  assumes "accessToken a = None" and "user a = None"
  shows "session_invariant jwtDecode a \<and> tokens_user_consistent a"
  using assms by (simp add: session_invariant_def tokens_user_consistent_def truthy_def)

lemma invariant_signed_in:
  assumes "accessToken a = Some t" and "t \<noteq> []" and "jwtDecode t = Inr payload" and "user a = Some u"
  shows "session_invariant jwtDecode a \<and> tokens_user_consistent a"
  using assms by (simp add: session_invariant_def tokens_user_consistent_def truthy_def)

lemma logout_finally_cleared [simp]:
  "accessToken (logout_finally s) = None" "user (logout_finally s) = None"
  "refreshToken (logout_finally s) = None"
  by (simp_all add: logout_finally_def Let_def)

lemma initialize_catch_cleared [simp]:
  "accessToken (initialize_catch s) = None"
  "user (initialize_catch s) = None"
  by (simp_all add: initialize_catch_def Let_def)

lemma initialize_finally_fields [simp]:
  "accessToken (initialize_finally s) = accessToken s"
  "user (initialize_finally s) = user s"
  by (simp_all add: initialize_finally_def)

lemma logout_establishes_invariant:
  "session_invariant jwtDecode (snd (logout answer s)) \<and> tokens_user_consistent (snd (logout answer s))"
  by (rule invariant_cleared)
     (simp_all add: logout_def logout_start_def logout_finish_def Let_def split: sum.split)

lemma initialize_resume_failure_invariant:
  "session_invariant jwtDecode (initialize_resume (Inl e) s)
   \<and> tokens_user_consistent (initialize_resume (Inl e) s)"
proof -
  have "session_invariant jwtDecode (initialize_finally (initialize_catch s))
      \<and> tokens_user_consistent (initialize_finally (initialize_catch s))"
    by (rule invariant_cleared) simp_all
  then show ?thesis
    by (simp add: initialize_resume_def)
qed

lemma initialize_resume_success_invariant:
  assumes "accessToken s = Some t" and "t \<noteq> []" and "jwtDecode t = Inr payload" and "user s = Some u"
  shows "session_invariant jwtDecode (initialize_resume (Inr t') s)
         \<and> tokens_user_consistent (initialize_resume (Inr t') s)"
proof -
  from assms have "session_invariant jwtDecode (initialize_finally s)
      \<and> tokens_user_consistent (initialize_finally s)"
    by (intro invariant_signed_in [where t = t and payload = payload and u = u]) simp_all
  then show ?thesis by (simp add: initialize_resume_def)
qed

lemma refresh_finish_result:
  assumes "jwtDecode [] = Inl m0" and "refresh_finish jwtDecode response s = (r, s')"
  shows "(\<exists>e. r = Inl e) \<or> (\<exists>t payload u. accessToken s' = Some t \<and> t \<noteq> [] \<and> jwtDecode t = Inr payload
             \<and> user s' = Some u)"
proof (cases response)
  case (Inl m)
  with assms(2) show ?thesis by (auto simp add: refresh_finish_def)
next
  case (Inr tokens)
  show ?thesis
  proof (cases "jwtDecode (newAccessToken tokens)")
    case (Inl m)
    with Inr assms(2) show ?thesis
      by (auto simp add: refresh_finish_def parseUserFromToken_def Let_def)
  next
    case dec: (Inr payload)
    with assms(1) have "newAccessToken tokens \<noteq> []" by auto
    with Inr dec assms(2) show ?thesis
      by (auto simp add: refresh_finish_def parseUserFromToken_def Let_def)
  qed
qed

lemma initialize_keeps_invariant:
  assumes empty: "jwtDecode [] = Inl m0"
    and inv: "session_invariant jwtDecode s \<and> tokens_user_consistent s"
  shows "session_invariant jwtDecode (initialize jwtDecode now k response s)
         \<and> tokens_user_consistent (initialize jwtDecode now k response s)"
proof (cases "truthy (accessToken s)")
  case False
  then have "accessToken s = None \<or> accessToken s = Some []"
    by (auto simp add: truthy_def split: option.splits)
  then have "initialize jwtDecode now k response s = initialize_finally (set_loading True s)"
    by (auto simp add: initialize_def initialize_start_def Let_def)
  with inv show ?thesis
    by (simp add: invariant_cong [of "initialize_finally (set_loading True s)" s])
next
  case present: True
  then obtain t where t: "accessToken s = Some t" "t \<noteq> []"
    by (auto simp add: truthy_def split: option.splits)
  let ?s2 = "read_isTokenExpired jwtDecode now k (set_loading True s)"
  show ?thesis
  proof (cases "isTokenExpired jwtDecode now k s")
    case False
    show ?thesis
    proof (cases "jwtDecode t")
      case (Inl m)
      with t False have "initialize jwtDecode now k response s = initialize_finally (initialize_catch ?s2)"
        by (simp add: initialize_def initialize_start_def parseUserFromToken_def Let_def)
      moreover have "session_invariant jwtDecode (initialize_finally (initialize_catch ?s2))
          \<and> tokens_user_consistent (initialize_finally (initialize_catch ?s2))"
        by (rule invariant_cleared) simp_all
      ultimately show ?thesis by simp
    next
      case (Inr payload)
      with t False obtain u where
        "initialize jwtDecode now k response s = initialize_finally (?s2\<lparr>user := Some u\<rparr>)"
        by (simp add: initialize_def initialize_start_def parseUserFromToken_def Let_def)
      moreover have "session_invariant jwtDecode (initialize_finally (?s2\<lparr>user := Some u\<rparr>))
          \<and> tokens_user_consistent (initialize_finally (?s2\<lparr>user := Some u\<rparr>))"
        using t Inr
        by (intro invariant_signed_in [where t = t and payload = payload and u = u]) simp_all
      ultimately show ?thesis by simp
    qed
  next
    case expired: True
    show ?thesis
    proof (cases "truthy (refreshToken s)")
      case False
      with t expired have "initialize jwtDecode now k response s =
          initialize_resume (Inl (AuthError REFRESH_FAILED ''No refresh token available'')) ?s2"
        by (simp add: initialize_def initialize_start_def refresh_start_def Let_def)
      then show ?thesis
        by (simp add: initialize_resume_failure_invariant)
    next
      case True
      let ?s3 = "?s2\<lparr>requests := requests ?s2 @ [''/api/auth/refresh'']\<rparr>"
      obtain r s' where f: "refresh_finish jwtDecode response ?s3 = (r, s')"
        by (cases "refresh_finish jwtDecode response ?s3")
      with t expired True have "initialize jwtDecode now k response s = initialize_resume r s'"
        by (simp add: initialize_def initialize_start_def refresh_start_def Let_def)
      moreover from refresh_finish_result [OF empty f]
      have "(\<exists>e. r = Inl e) \<or> (\<exists>t payload u. accessToken s' = Some t \<and> t \<noteq> [] \<and> jwtDecode t = Inr payload
             \<and> user s' = Some u)" .
      ultimately show ?thesis
        using initialize_resume_success_invariant [of s' _ jwtDecode]
        by (cases r) (auto simp add: initialize_resume_failure_invariant)
    qed
  qed
qed

lemma login_keeps_invariant_unless_undecodable:
  assumes empty: "jwtDecode [] = Inl m0"
    and inv: "session_invariant jwtDecode s \<and> tokens_user_consistent s"
    and ok: "fst (login jwtDecode response s) = Inr () \<or> (\<exists>m. response = Inl m)"
  shows "session_invariant jwtDecode (snd (login jwtDecode response s))
         \<and> tokens_user_consistent (snd (login jwtDecode response s))"
proof (cases response)
  case (Inl m)
  then have eq: "accessToken (snd (login jwtDecode response s)) = accessToken s"
      "user (snd (login jwtDecode response s)) = user s"
    by (simp_all add: login_def login_start_def login_finish_def Let_def)
  from inv show ?thesis
    by (simp add: invariant_cong [OF eq])
next
  case (Inr tokens)
  show ?thesis
  proof (cases "jwtDecode (newAccessToken tokens)")
    case (Inl m)
    with Inr ok show ?thesis
      by (simp add: login_def login_finish_def parseUserFromToken_def Let_def)
  next
    case dec: (Inr payload)
    with empty have "newAccessToken tokens \<noteq> []" by auto
    with Inr dec show ?thesis
      by (intro invariant_signed_in [where t = "newAccessToken tokens" and payload = payload])
         (simp_all add: login_def login_start_def login_finish_def parseUserFromToken_def Let_def)
  qed
qed

lemma refresh_keeps_invariant_unless_undecodable:
  assumes empty: "jwtDecode [] = Inl m0"
    and inv: "session_invariant jwtDecode s \<and> tokens_user_consistent s"
    and ok: "(\<exists>t. fst (refreshAccessToken jwtDecode response s) = Inr t) \<or> (\<exists>m. response = Inl m)
         \<or> \<not> truthy (refreshToken s)"
  shows "session_invariant jwtDecode (snd (refreshAccessToken jwtDecode response s))
         \<and> tokens_user_consistent (snd (refreshAccessToken jwtDecode response s))"
proof (cases "truthy (refreshToken s)")
  case False
  then have same: "snd (refreshAccessToken jwtDecode response s) = s"
    by (simp add: refreshAccessToken_def refresh_start_def)
  from inv show ?thesis unfolding same .
next
  case present: True
  show ?thesis
  proof (cases response)
    case (Inl m)
    with present have eq: "accessToken (snd (refreshAccessToken jwtDecode response s)) = accessToken s"
        "user (snd (refreshAccessToken jwtDecode response s)) = user s"
      by (simp_all add: refreshAccessToken_def refresh_start_def refresh_finish_def)
    from inv show ?thesis
      by (simp add: invariant_cong [OF eq])
  next
    case (Inr tokens)
    show ?thesis
    proof (cases "jwtDecode (newAccessToken tokens)")
      case (Inl m)
      with Inr ok present show ?thesis
        by (simp add: refreshAccessToken_def refresh_start_def refresh_finish_def
              parseUserFromToken_def Let_def)
    next
      case dec: (Inr payload)
      with empty have "newAccessToken tokens \<noteq> []" by auto
      with Inr dec present show ?thesis
        by (intro invariant_signed_in [where t = "newAccessToken tokens" and payload = payload])
           (simp_all add: refreshAccessToken_def refresh_start_def refresh_finish_def
              parseUserFromToken_def Let_def)
    qed
  qed
qed

section \<open>Properties of the gateway\<close>

lemma unfinished_simps [simp]:
  "unfinished RefreshPending" "unfinished (RefreshSettled r)" "\<not> unfinished RefreshDone"
  by (simp_all add: unfinished_def)

lemma call_logout_fields [simp]:
  "refreshQueue (call_logout s) = refreshQueue s"
  "refreshes (call_logout s) = refreshes s"
  "initializations (call_logout s) = initializations s"
  "callers (call_logout s) = callers s"
  "navigations (call_logout s) = navigations s"
  "hooksRun (call_logout s) = hooksRun s"
  "length (logouts (call_logout s)) = Suc (length (logouts s))"
  by (simp_all add: call_logout_def split: run.split)

lemma navigateTo_fields [simp]:
  "refreshQueue (navigateTo p s) = refreshQueue s"
  "refreshes (navigateTo p s) = refreshes s"
  "initializations (navigateTo p s) = initializations s"
  "callers (navigateTo p s) = callers s"
  "auth (navigateTo p s) = auth s"
  "logouts (navigateTo p s) = logouts s"
  "hooksRun (navigateTo p s) = hooksRun s"
  "navigations (navigateTo p s) = navigations s @ [p]"
  by (simp_all add: navigateTo_def)

lemma pending_simps [simp]:
  "pending RefreshPending" "\<not> pending (RefreshSettled r)" "\<not> pending RefreshDone"
  by (simp_all add: pending_def)

lemma dispatch_fields [simp]:
  "refreshQueue (dispatch i url fo s) = refreshQueue s"
  "refreshes (dispatch i url fo s) = refreshes s"
  "initializations (dispatch i url fo s) = initializations s"
  "callers (dispatch i url fo s) = (callers s)(i := Dispatched url fo)"
  "logouts (dispatch i url fo s) = logouts s"
  "navigations (dispatch i url fo s) = navigations s"
  "hooksRun (dispatch i url fo s) = hooksRun s"
  "auth (dispatch i url fo s) = (auth s)\<lparr>requests := requests (auth s) @ [url]\<rparr>"
  by (simp_all add: dispatch_def)


lemma coordinated_cong:
  assumes "coordinated s"
    and "refreshQueue s' = refreshQueue s" and "refreshes s' = refreshes s"
    and "\<And>i h url fo. callers s' i = AwaitingRefresh h url fo \<Longrightarrow> callers s i = AwaitingRefresh h url fo"
  shows "coordinated s'"
  using assms unfolding coordinated_def by metis










lemma coordinated_onResponseError:
  "coordinated s \<Longrightarrow> coordinated (onResponseError i status s)"
  by (erule coordinated_cong)
     (auto simp add: onResponseError_def Let_def split: if_splits)

lemma onResponseError_fields [simp]:
  "refreshQueue (onResponseError i status s) = refreshQueue s"
  "refreshes (onResponseError i status s) = refreshes s"
  by (simp_all add: onResponseError_def Let_def)

lemma onResponseError_callers [simp]:
  "callers (onResponseError i status s) =
     (callers s)(i := (if status = 401 then AwaitingLogout (length (logouts s)) status
                       else Failed (Status status)))"
  by (simp add: onResponseError_def Let_def)




lemma useAuthApi_fields [simp]:
  "refreshQueue (useAuthApi client jwtDecode now s) = refreshQueue s"
  "refreshes (useAuthApi client jwtDecode now s) = refreshes s"
  "callers (useAuthApi client jwtDecode now s) = callers s"
  "navigations (useAuthApi client jwtDecode now s) = navigations s"
  "logouts (useAuthApi client jwtDecode now s) = logouts s"
  "hooksRun (useAuthApi client jwtDecode now s) = hooksRun s"
  "length (initializations (useAuthApi client jwtDecode now s)) = Suc (length (initializations s))"
  by (simp_all add: useAuthApi_def Let_def split: prod.split)

lemma initialize_response_fields [simp]:
  "refreshQueue (initialize_response jwtDecode k r s) = refreshQueue s"
  "refreshes (initialize_response jwtDecode k r s) = refreshes s"
  "callers (initialize_response jwtDecode k r s) = callers s"
  "navigations (initialize_response jwtDecode k r s) = navigations s"
  "logouts (initialize_response jwtDecode k r s) = logouts s"
  "hooksRun (initialize_response jwtDecode k r s) = hooksRun s"
  "length (initializations (initialize_response jwtDecode k r s)) = length (initializations s)"
  by (simp_all add: initialize_response_def split: refresh_state.split prod.split)

lemma initialize_continue_fields [simp]:
  "refreshQueue (initialize_continue k s) = refreshQueue s"
  "refreshes (initialize_continue k s) = refreshes s"
  "callers (initialize_continue k s) = callers s"
  "navigations (initialize_continue k s) = navigations s"
  "logouts (initialize_continue k s) = logouts s"
  "hooksRun (initialize_continue k s) = hooksRun s"
  "length (initializations (initialize_continue k s)) = length (initializations s)"
  by (simp_all add: initialize_continue_def split: refresh_state.split)









lemma request_options_onRequest:
  "options ''onRequest'' = None \<Longrightarrow>
     request_options apiBase a meth data options ''onRequest'' = Some (Hook GatewayOnRequest)"
  by (simp add: request_options_def createFetchOptions_def Let_def map_add_def split: option.split)


text \<open>A call that finds no handle starts the one refresh and publishes its handle.\<close>

lemma call_starts_refresh:
  assumes "refreshQueue s = None" and "isAuthenticated (auth s)"
    and "isTokenExpired jwtDecode now k (auth s)" and "options ''onRequest'' = None"
    and "callers s i = Idle" and "k < length (initializations s)"
  shows "step apiBase jwtDecode s (Call i k now meth url data options) =
           s\<lparr>auth := (if truthy (refreshToken (auth s))
                      then (read_isTokenExpired jwtDecode now k (auth s))
                             \<lparr>requests := requests (auth s) @ [''/api/auth/refresh'']\<rparr>
                      else read_isTokenExpired jwtDecode now k (auth s)),
             refreshQueue := Some (length (refreshes s)),
             refreshes := refreshes s @
               [if truthy (refreshToken (auth s)) then RefreshPending
                else RefreshSettled (Inl (AuthError REFRESH_FAILED ''No refresh token available''))],
             callers := (callers s)(i := AwaitingRefresh (length (refreshes s)) url
                (request_options apiBase (auth s) meth data options)),
             hooksRun := hooksRun s @ [(i, GatewayOnRequest)]\<rparr>"
  using assms
  by (simp add: step_def request_def fetch_start_def onRequest_def request_options_onRequest
        refresh_start_def Let_def)

lemma waits_for_simps [simp]:
  "waits_for h url (AwaitingRefresh h' url' fo) = (h' = h \<and> url' = url)"
  "\<not> waits_for h url Idle"
  by (simp_all add: waits_for_def)




lemma refresh_response_fields [simp]:
  "refreshQueue (refresh_response jwtDecode h r s) = refreshQueue s"
  "callers (refresh_response jwtDecode h r s) = callers s"
  "navigations (refresh_response jwtDecode h r s) = navigations s"
  "logouts (refresh_response jwtDecode h r s) = logouts s"
  "hooksRun (refresh_response jwtDecode h r s) = hooksRun s"
  "initializations (refresh_response jwtDecode h r s) = initializations s"
  "length (refreshes (refresh_response jwtDecode h r s)) = length (refreshes s)"
  by (simp_all add: refresh_response_def split: refresh_state.split prod.split)

lemma refresh_finish_result_independent:
  "fst (refresh_finish jwtDecode answer x) = fst (refresh_finish jwtDecode answer y)"
  by (simp add: refresh_finish_def Let_def split: sum.split)





lemma onRequest_resume_dispatches:
  assumes "callers s i = AwaitingRefresh h url fo" and "h < length (refreshes s)"
    and "refreshes s ! h = RefreshDone"
  shows "onRequest_resume i s =
           dispatch i url
             (fo(''headers'' \<mapsto> HeadersOf ((headers_or_empty fo)
                  (''Authorization'' \<mapsto> bearer (accessToken (auth s)))))) s"
  using assms by (simp add: onRequest_resume_def Let_def)


lemma example_client_gateway:
  "run ''https://api.test'' example_jwtDecode (initial example_session) [UseAuthApi True 5000000] =
     \<lparr> auth = example_session\<lparr>loading := True,
                expiredMemo := (\<lambda>k. None)(0 := Some True),
                requests := [''/api/auth/refresh''],
                loadingWrites := [True]\<rparr>,
       refreshQueue = None, refreshes = [], initializations = [RefreshPending], logouts = [],
       callers = (\<lambda>i. Idle), navigations = [], hooksRun = [] \<rparr>"
  by (simp add: run_def step_def initial_def useAuthApi_def useAuth_def initialize_start_def
        set_loading_def read_isTokenExpired_def isTokenExpired_def isTokenExpired_getter_def
        refresh_start_def truthy_def example_session_def example_jwtDecode_def Let_def)



lemma example_gateway_state:
  "example_gateway =
     \<lparr> auth = example_session\<lparr>loading := True,
                expiredMemo := (\<lambda>k. None)(0 := Some True),
                requests := [''/api/auth/refresh''],
                loadingWrites := [True]\<rparr>,
       refreshQueue = None, refreshes = [], initializations = [RefreshPending], logouts = [],
       callers = (\<lambda>i. Idle), navigations = [], hooksRun = [] \<rparr>"
  unfolding example_gateway_def by (rule example_client_gateway)


lemma iife_resume_failure:
  assumes "h < length (refreshes s)" and "refreshes s ! h = RefreshSettled (Inl e)"
  shows "iife_resume h s =
           (navigateTo ''/signin'' (call_logout s))
             \<lparr>refreshQueue := None, refreshes := (refreshes s)[h := RefreshDone]\<rparr>"
  using assms by (simp add: iife_resume_def Let_def)

lemma step_threw_only_unauthorized:
  assumes "callers (step apiBase jwtDecode s ev) j = Threw e"
  shows "callers s j = Threw e \<or> e = AuthError UNAUTHORIZED ''Authentication required''"
proof (cases ev)
  case (Call i k now meth url data options)
  show ?thesis
  proof (cases "callers s i = Idle \<and> k < length (initializations s)")
    case False
    with Call assms show ?thesis by (auto simp add: step_def split: caller_state.splits if_splits)
  next
    case True
    show ?thesis
    proof (cases "isAuthenticated (auth s)")
      case False
      with True Call assms show ?thesis
        by (auto simp add: step_def request_def split: if_splits)
    next
      case authd: True
      let ?fo = "request_options apiBase (auth s) meth data options"
      have "callers (fetch_start jwtDecode now i k url ?fo s) j = callers s j
          \<or> (\<forall>e. callers (fetch_start jwtDecode now i k url ?fo s) j \<noteq> Threw e)"
        by (simp add: fetch_start_def onRequest_def Let_def
              split: option.split optval.split handler.split run.split)
      moreover from True Call assms authd
      have "callers (fetch_start jwtDecode now i k url ?fo s) j = Threw e"
        by (simp add: step_def request_def)
      ultimately show ?thesis by metis
    qed
  qed
next
  case (RefreshResponse h r)
  with assms show ?thesis by (simp add: step_def)
next
  case (IifeResume h)
  with assms show ?thesis
    by (simp add: step_def iife_resume_def Let_def split: if_splits refresh_state.splits sum.splits)
next
  case (Resume i)
  with assms show ?thesis
    by (simp add: step_def onRequest_resume_def Let_def split: caller_state.splits if_splits)
next
  case (Response i res)
  have "callers (fetch_finish i res s) j = callers s j
        \<or> (\<forall>e. callers (fetch_finish i res s) j \<noteq> Threw e)"
    by (simp add: fetch_finish_def
          split: caller_state.split http_result.split option.split optval.split handler.split)
  moreover from Response assms have "callers (fetch_finish i res s) j = Threw e"
    by (simp add: step_def)
  ultimately show ?thesis by metis
next
  case (LogoutResponse k r)
  with assms show ?thesis
    by (simp add: step_def logout_response_def split: if_splits logout_state.splits)
next
  case (ResumeAfterLogout i)
  with assms show ?thesis
    by (simp add: step_def onResponseError_resume_def split: caller_state.splits if_splits)
next
  case (UseAuthApi client now)
  with assms show ?thesis by (simp add: step_def)
next
  case (InitializeResponse k r)
  with assms show ?thesis by (simp add: step_def)
next
  case (InitializeResume k)
  with assms show ?thesis by (simp add: step_def)
qed

text \<open>
  Claim C2, as stated, fails: two calls find the token expired, the refresh endpoint
  rejects the refresh that the first of them started, and both requests are sent all the
  same, after the request to the logout endpoint that the refresh closure's \<^verbatim>\<open>catch\<close>
  block started.
\<close>

theorem failed_refresh_counterexample:
  "refreshes (run ''https://api.test'' example_jwtDecode (initial example_session)
       (take 4 failed_refresh_schedule)) ! 0
     = RefreshSettled (Inl (AuthError REFRESH_FAILED ''Refresh token revoked''))
   \<and> dispatched_url (callers (run ''https://api.test'' example_jwtDecode (initial example_session)
       failed_refresh_schedule) 0) = Some ''/api/items''
   \<and> dispatched_url (callers (run ''https://api.test'' example_jwtDecode (initial example_session)
       failed_refresh_schedule) 1) = Some ''/api/me''
   \<and> requests (auth (run ''https://api.test'' example_jwtDecode (initial example_session)
       failed_refresh_schedule))
     = [''/api/auth/refresh'', ''/api/auth/refresh'', ''/api/auth/logout'', ''/api/items'', ''/api/me'']"
  by (simp add: failed_refresh_schedule_def run_def step_def initial_def example_session_def
        example_jwtDecode_def useAuthApi_def useAuth_def initialize_start_def set_loading_def
        read_isTokenExpired_def isTokenExpired_getter_def
        request_def fetch_start_def onRequest_def request_options_def
        createFetchOptions_def isAuthenticated_def isTokenExpired_def truthy_def refresh_start_def
        refresh_response_def refresh_finish_def or_default_def iife_resume_def call_logout_def
        logout_start_def navigateTo_def onRequest_resume_def dispatch_def dispatched_url_def
        headers_or_empty_def Let_def)

text \<open>
  Claim C2, amended. When a gateway request finds the token expired and the refresh it
  triggers fails, the refresh closure calls \<^verbatim>\<open>logout\<close> without awaiting it, navigates
  to \<^verbatim>\<open>/signin\<close> and clears the handle; the failure is not passed on. The caller
  resumes, sets the Authorization header from the access token of that moment, and its
  request is sent. The same holds for every waiter whose handle's closure has finished;
  and no step makes a gateway call throw anything but the Unauthorized error of the
  precondition check.
\<close>

theorem failed_refresh_still_dispatches:
  assumes idle: "callers s i = Idle" and authd: "isAuthenticated (auth s)"
    and inst: "k < length (initializations s)"
    and exp: "isTokenExpired jwtDecode now k (auth s)" and noh: "refreshQueue s = None"
    and opt: "options ''onRequest'' = None"
    and fails: "refreshes (run apiBase jwtDecode s
                   [Call i k now method url data options,
                    RefreshResponse (length (refreshes s)) answer]) ! length (refreshes s)
                = RefreshSettled (Inl e)"
    and fin: "s' = run apiBase jwtDecode s
                   [Call i k now method url data options,
                    RefreshResponse (length (refreshes s)) answer,
                    IifeResume (length (refreshes s)),
                    Resume i]"
  shows "dispatched_url (callers s' i) = Some url
       \<and> authorization_sent (callers s' i) = Some (bearer (accessToken (auth s')))
       \<and> requests (auth s') \<noteq> [] \<and> last (requests (auth s')) = url
       \<and> navigations s' = navigations s @ [''/signin'']
       \<and> length (logouts s') = Suc (length (logouts s))
       \<and> refreshQueue s' = None
       \<and> (\<forall>t j h u fo.
             callers t j = AwaitingRefresh h u fo \<and> h < length (refreshes t)
               \<and> refreshes t ! h = RefreshDone \<longrightarrow>
             dispatched_url (callers (onRequest_resume j t) j) = Some u
             \<and> authorization_sent (callers (onRequest_resume j t) j)
                 = Some (bearer (accessToken (auth t))))
       \<and> (\<forall>t ev j e'.
             callers (step apiBase jwtDecode t ev) j = Threw e' \<longrightarrow>
             callers t j = Threw e' \<or> e' = AuthError UNAUTHORIZED ''Authentication required'')"
proof -
  let ?h = "length (refreshes s)"
  let ?fo = "request_options apiBase (auth s) method data options"
  let ?s1 = "step apiBase jwtDecode s (Call i k now method url data options)"
  let ?s2 = "refresh_response jwtDecode ?h answer ?s1"
  let ?s3 = "iife_resume ?h ?s2"
  let ?s4 = "onRequest_resume i ?s3"
  have s1: "refreshQueue ?s1 = Some ?h" "length (refreshes ?s1) = Suc ?h"
      "callers ?s1 i = AwaitingRefresh ?h url ?fo"
      "navigations ?s1 = navigations s" "logouts ?s1 = logouts s"
    unfolding call_starts_refresh [where options = options, OF noh authd exp opt idle inst] by simp_all
  have s2: "refreshQueue ?s2 = Some ?h" "?h < length (refreshes ?s2)"
      "callers ?s2 i = AwaitingRefresh ?h url ?fo"
      "navigations ?s2 = navigations s" "logouts ?s2 = logouts s"
    using s1 by simp_all
  from fails have failed: "refreshes ?s2 ! ?h = RefreshSettled (Inl e)"
    by (simp add: run_def step_def)
  have s3_eq: "?s3 = (navigateTo ''/signin'' (call_logout ?s2))
             \<lparr>refreshQueue := None, refreshes := (refreshes ?s2)[?h := RefreshDone]\<rparr>"
    using s2(2) failed by (rule iife_resume_failure)
  have s3: "refreshQueue ?s3 = None" "?h < length (refreshes ?s3)"
      "refreshes ?s3 ! ?h = RefreshDone"
      "callers ?s3 i = AwaitingRefresh ?h url ?fo"
      "navigations ?s3 = navigations s @ [''/signin'']"
      "length (logouts ?s3) = Suc (length (logouts s))"
    unfolding s3_eq using s2 by simp_all
  have s4_eq: "?s4 = dispatch i url
             (?fo(''headers'' \<mapsto> HeadersOf ((headers_or_empty ?fo)
                  (''Authorization'' \<mapsto> bearer (accessToken (auth ?s3)))))) ?s3"
    using s3(4,2,3) by (rule onRequest_resume_dispatches)
  have fin': "s' = ?s4"
    by (simp add: fin run_def step_def)
  have main: "dispatched_url (callers s' i) = Some url
       \<and> authorization_sent (callers s' i) = Some (bearer (accessToken (auth s')))
       \<and> requests (auth s') \<noteq> [] \<and> last (requests (auth s')) = url
       \<and> navigations s' = navigations s @ [''/signin'']
       \<and> length (logouts s') = Suc (length (logouts s))
       \<and> refreshQueue s' = None"
    unfolding fin' s4_eq using s3
    by (simp add: dispatched_url_def authorization_sent_def headers_or_empty_def)
  have waiters: "dispatched_url (callers (onRequest_resume j t) j) = Some u
             \<and> authorization_sent (callers (onRequest_resume j t) j)
                 = Some (bearer (accessToken (auth t)))"
    if "callers t j = AwaitingRefresh h u fo \<and> h < length (refreshes t)
               \<and> refreshes t ! h = RefreshDone" for t j h u fo
    using that
    by (simp add: onRequest_resume_dispatches [of t j h u fo] dispatched_url_def
          authorization_sent_def headers_or_empty_def)
  have threw: "callers t j = Threw e' \<or> e' = AuthError UNAUTHORIZED ''Authentication required''"
    if "callers (step apiBase jwtDecode t ev) j = Threw e'" for t ev j e'
    using that by (rule step_threw_only_unauthorized)
  show ?thesis
    using main waiters threw by blast
qed

theorem failed_refresh_still_dispatches_witness:
  "callers example_gateway 0 = Idle
   \<and> isAuthenticated (auth example_gateway)
   \<and> 0 < length (initializations example_gateway)
   \<and> isTokenExpired example_jwtDecode 5000001 0 (auth example_gateway)
   \<and> refreshQueue example_gateway = None
   \<and> refreshes (run ''https://api.test'' example_jwtDecode example_gateway
        [Call 0 0 5000001 GET ''/api/items'' None Map.empty,
         RefreshResponse 0 (Inl ''Refresh token revoked'')]) ! 0
      = RefreshSettled (Inl (AuthError REFRESH_FAILED ''Refresh token revoked''))
   \<and> dispatched_url (callers (run ''https://api.test'' example_jwtDecode example_gateway
        [Call 0 0 5000001 GET ''/api/items'' None Map.empty,
         RefreshResponse 0 (Inl ''Refresh token revoked''),
         IifeResume 0, Resume 0]) 0) = Some ''/api/items''
   \<and> navigations (run ''https://api.test'' example_jwtDecode example_gateway
        [Call 0 0 5000001 GET ''/api/items'' None Map.empty,
         RefreshResponse 0 (Inl ''Refresh token revoked''),
         IifeResume 0, Resume 0]) = [''/signin'']"
proof -
  let ?s = "example_gateway"
  have idle: "callers ?s 0 = Idle" by (simp add: example_gateway_state)
  have authd: "isAuthenticated (auth ?s)"
    by (simp add: example_gateway_state isAuthenticated_def example_session_def truthy_def)
  have inst: "0 < length (initializations ?s)" by (simp add: example_gateway_state)
  have exp: "isTokenExpired example_jwtDecode 5000001 0 (auth ?s)"
    by (simp add: example_gateway_state isTokenExpired_def)
  have noh: "refreshQueue ?s = None" by (simp add: example_gateway_state)
  have opt: "(Map.empty :: fetch_options) ''onRequest'' = None" by simp
  have len: "length (refreshes ?s) = 0" "navigations ?s = []" by (simp_all add: example_gateway_state)
  have fails: "refreshes (run ''https://api.test'' example_jwtDecode ?s
        [Call 0 0 5000001 GET ''/api/items'' None Map.empty,
         RefreshResponse (length (refreshes ?s)) (Inl ''Refresh token revoked'')])
        ! length (refreshes ?s)
      = RefreshSettled (Inl (AuthError REFRESH_FAILED ''Refresh token revoked''))"
    by (simp add: run_def step_def example_gateway_state example_session_def
        request_def fetch_start_def onRequest_def request_options_def
        createFetchOptions_def isAuthenticated_def isTokenExpired_def read_isTokenExpired_def
        truthy_def refresh_start_def
        refresh_response_def refresh_finish_def or_default_def Let_def)
  from failed_refresh_still_dispatches [where options = "Map.empty :: fetch_options", OF idle authd inst exp noh opt fails refl]
  show ?thesis
    using idle authd inst exp noh fails unfolding len by simp
qed

text \<open>
  Claim C6. A gateway call made while \<^verbatim>\<open>isAuthenticated\<close> is false, by
  \<^verbatim>\<open>request\<close> and so by \<^verbatim>\<open>get\<close>, \<^verbatim>\<open>post\<close>, \<^verbatim>\<open>put\<close> and \<^verbatim>\<open>delete\<close>,
  throws \<^verbatim>\<open>UNAUTHORIZED\<close> and changes nothing else: no request is issued and no hook
  runs.
\<close>

theorem unauthenticated_request_rejected:
  assumes "\<not> isAuthenticated (auth s)"
  shows "request apiBase jwtDecode now i k method url data options s =
           s\<lparr>callers := (callers s)(i := Threw (AuthError UNAUTHORIZED ''Authentication required''))\<rparr>
       \<and> get apiBase jwtDecode now i k url options s =
           s\<lparr>callers := (callers s)(i := Threw (AuthError UNAUTHORIZED ''Authentication required''))\<rparr>
       \<and> post apiBase jwtDecode now i k url body options s =
           s\<lparr>callers := (callers s)(i := Threw (AuthError UNAUTHORIZED ''Authentication required''))\<rparr>
       \<and> put apiBase jwtDecode now i k url body options s =
           s\<lparr>callers := (callers s)(i := Threw (AuthError UNAUTHORIZED ''Authentication required''))\<rparr>
       \<and> delete apiBase jwtDecode now i k url options s =
           s\<lparr>callers := (callers s)(i := Threw (AuthError UNAUTHORIZED ''Authentication required''))\<rparr>
       \<and> requests (auth (request apiBase jwtDecode now i k method url data options s)) = requests (auth s)
       \<and> hooksRun (request apiBase jwtDecode now i k method url data options s) = hooksRun s"
  using assms by (simp add: request_def get_def post_def put_def delete_def)

theorem unauthenticated_request_rejected_witness:
  "\<not> isAuthenticated (auth (initial empty_session))
   \<and> callers (get ''https://api.test'' example_jwtDecode 0 0 0 ''/api/items'' Map.empty
        (initial empty_session)) 0
      = Threw (AuthError UNAUTHORIZED ''Authentication required'')
   \<and> requests (auth (get ''https://api.test'' example_jwtDecode 0 0 0 ''/api/items'' Map.empty
        (initial empty_session))) = []"
proof -
  have h: "\<not> isAuthenticated (auth (initial empty_session))"
    by (simp add: isAuthenticated_def initial_def empty_session_def truthy_def)
  from unauthenticated_request_rejected [OF h, of "''https://api.test''" example_jwtDecode 0 0 0 _
      "''/api/items''" _ Map.empty]
  have "get ''https://api.test'' example_jwtDecode 0 0 0 ''/api/items'' Map.empty (initial empty_session) =
           (initial empty_session)\<lparr>callers := (callers (initial empty_session))
              (0 := Threw (AuthError UNAUTHORIZED ''Authentication required''))\<rparr>"
    by blast
  then show ?thesis using h by (simp add: initial_def empty_session_def)
qed

text \<open>
  Claim C9. The caller's options are spread last, so an \<^verbatim>\<open>onRequest\<close> or
  \<^verbatim>\<open>onResponseError\<close> handler among them is the one in the options handed to
  \<^verbatim>\<open>$fetch\<close>. With a caller's \<^verbatim>\<open>onRequest\<close> the request is sent at once, whether
  the token is expired or not: no expiry check, no refresh. With a caller's
  \<^verbatim>\<open>onResponseError\<close>, which the options keep through the request hook's header
  update, an error response, 401 included, runs the caller's handler only: no logout, no
  navigation.
\<close>

theorem caller_handlers_replace_gateway_hooks:
  "(options ''onRequest'' = Some (Hook (CallerHandler c)) \<longrightarrow>
      createFetchOptions apiBase a options ''onRequest'' = Some (Hook (CallerHandler c))
      \<and> request_options apiBase a method data options ''onRequest'' = Some (Hook (CallerHandler c)))
   \<and> (options ''onResponseError'' = Some (Hook (CallerHandler c)) \<longrightarrow>
      createFetchOptions apiBase a options ''onResponseError'' = Some (Hook (CallerHandler c))
      \<and> request_options apiBase a method data options ''onResponseError'' = Some (Hook (CallerHandler c)))
   \<and> (options ''onRequest'' = Some (Hook (CallerHandler c)) \<and> isAuthenticated (auth s) \<longrightarrow>
      request apiBase jwtDecode now i k method url data options s =
        dispatch i url (request_options apiBase (auth s) method data options)
          (s\<lparr>hooksRun := hooksRun s @ [(i, CallerHandler c)]\<rparr>))
   \<and> (callers s i = Dispatched url fo \<and> fo ''onResponseError'' = Some (Hook (CallerHandler c))
        \<and> 400 \<le> status \<and> status < 600 \<longrightarrow>
      fetch_finish i (Status status) s =
        s\<lparr>callers := (callers s)(i := Failed (Status status)),
          hooksRun := hooksRun s @ [(i, CallerHandler c)]\<rparr>)
   \<and> (callers s i = AwaitingRefresh h url fo \<and> fo ''onResponseError'' = Some (Hook (CallerHandler c)) \<longrightarrow>
      (\<forall>url' fo'. callers (onRequest_resume i s) i = Dispatched url' fo' \<longrightarrow>
         fo' ''onResponseError'' = Some (Hook (CallerHandler c))))"
proof -
  have spread: "createFetchOptions apiBase a options k = Some v
      \<and> (k \<noteq> ''method'' \<and> k \<noteq> ''body'' \<longrightarrow> request_options apiBase a method data options k = Some v)"
    if "options k = Some v" for k v
    using that
    by (simp add: request_options_def createFetchOptions_def Let_def map_add_def split: option.split)
  have A: "createFetchOptions apiBase a options ''onRequest'' = Some (Hook (CallerHandler c))
      \<and> request_options apiBase a method data options ''onRequest'' = Some (Hook (CallerHandler c))"
    if "options ''onRequest'' = Some (Hook (CallerHandler c))"
    using spread [OF that] by simp
  have B: "createFetchOptions apiBase a options ''onResponseError'' = Some (Hook (CallerHandler c))
      \<and> request_options apiBase a method data options ''onResponseError'' = Some (Hook (CallerHandler c))"
    if "options ''onResponseError'' = Some (Hook (CallerHandler c))"
    using spread [OF that] by simp
  have C: "request apiBase jwtDecode now i k method url data options s =
        dispatch i url (request_options apiBase (auth s) method data options)
          (s\<lparr>hooksRun := hooksRun s @ [(i, CallerHandler c)]\<rparr>)"
    if "options ''onRequest'' = Some (Hook (CallerHandler c)) \<and> isAuthenticated (auth s)"
  proof -
    from that have "request_options apiBase (auth s) method data options ''onRequest''
        = Some (Hook (CallerHandler c))"
      by (simp add: request_options_def createFetchOptions_def Let_def map_add_def split: option.split)
    with that show ?thesis by (simp add: request_def fetch_start_def)
  qed
  have D: "fetch_finish i (Status status) s =
        s\<lparr>callers := (callers s)(i := Failed (Status status)),
          hooksRun := hooksRun s @ [(i, CallerHandler c)]\<rparr>"
    if "callers s i = Dispatched url fo \<and> fo ''onResponseError'' = Some (Hook (CallerHandler c))
        \<and> 400 \<le> status \<and> status < 600"
    using that by (simp add: fetch_finish_def)
  have E: "\<forall>url' fo'. callers (onRequest_resume i s) i = Dispatched url' fo' \<longrightarrow>
         fo' ''onResponseError'' = Some (Hook (CallerHandler c))"
    if "callers s i = AwaitingRefresh h url fo \<and> fo ''onResponseError'' = Some (Hook (CallerHandler c))"
    using that by (auto simp add: onRequest_resume_def Let_def split: if_splits)
  show ?thesis using A B C D E by blast
qed

theorem caller_handlers_replace_gateway_hooks_witness:
  "isAuthenticated (auth example_gateway)
   \<and> isTokenExpired example_jwtDecode 5000001 0 (auth example_gateway)
   \<and> caller_hooks ''onRequest'' = Some (Hook (CallerHandler 7))
   \<and> caller_hooks ''onResponseError'' = Some (Hook (CallerHandler 8))
   \<and> refreshes (run ''https://api.test'' example_jwtDecode example_gateway
        [Call 0 0 5000001 GET ''/api/items'' None caller_hooks, Response 0 (Status 401)]) = []
   \<and> logouts (run ''https://api.test'' example_jwtDecode example_gateway
        [Call 0 0 5000001 GET ''/api/items'' None caller_hooks, Response 0 (Status 401)]) = []
   \<and> navigations (run ''https://api.test'' example_jwtDecode example_gateway
        [Call 0 0 5000001 GET ''/api/items'' None caller_hooks, Response 0 (Status 401)]) = []
   \<and> hooksRun (run ''https://api.test'' example_jwtDecode example_gateway
        [Call 0 0 5000001 GET ''/api/items'' None caller_hooks, Response 0 (Status 401)])
      = [(0, CallerHandler 7), (0, CallerHandler 8)]
   \<and> requests (auth (run ''https://api.test'' example_jwtDecode example_gateway
        [Call 0 0 5000001 GET ''/api/items'' None caller_hooks, Response 0 (Status 401)]))
      = [''/api/auth/refresh'', ''/api/items'']
   \<and> callers (run ''https://api.test'' example_jwtDecode example_gateway
        [Call 0 0 5000001 GET ''/api/items'' None caller_hooks, Response 0 (Status 401)]) 0
      = Failed (Status 401)"
proof -
  let ?s = "example_gateway"
  let ?fo = "request_options ''https://api.test'' (auth ?s) GET None caller_hooks"
  let ?s1 = "dispatch 0 ''/api/items'' ?fo (?s\<lparr>hooksRun := hooksRun ?s @ [(0, CallerHandler 7)]\<rparr>)"
  have authd: "isAuthenticated (auth ?s)"
    by (simp add: example_gateway_state isAuthenticated_def example_session_def truthy_def)
  have exp: "isTokenExpired example_jwtDecode 5000001 0 (auth ?s)"
    by (simp add: example_gateway_state isTokenExpired_def)
  have h1: "caller_hooks ''onRequest'' = Some (Hook (CallerHandler 7))"
    and h2: "caller_hooks ''onResponseError'' = Some (Hook (CallerHandler 8))"
    by (simp_all add: caller_hooks_def)
  have idle: "callers ?s 0 = Idle" "0 < length (initializations ?s)"
    by (simp_all add: example_gateway_state)
  from caller_handlers_replace_gateway_hooks
    [of caller_hooks 7 "''https://api.test''" "auth ?s" GET None ?s example_jwtDecode 5000001 0 0
        "''/api/items''"] h1 authd
  have call: "request ''https://api.test'' example_jwtDecode 5000001 0 0 GET ''/api/items'' None
        caller_hooks ?s = ?s1"
    by blast
  from caller_handlers_replace_gateway_hooks
    [of caller_hooks 8 "''https://api.test''" "auth ?s" GET None] h2
  have fo: "?fo ''onResponseError'' = Some (Hook (CallerHandler 8))"
    by blast
  have disp: "callers ?s1 0 = Dispatched ''/api/items'' ?fo" by simp
  from caller_handlers_replace_gateway_hooks
    [of caller_hooks 8 "''https://api.test''" "auth ?s" GET None ?s1 example_jwtDecode 5000001 0 0
        "''/api/items''" ?fo 401] disp fo
  have fin: "fetch_finish 0 (Status 401) ?s1 =
        ?s1\<lparr>callers := (callers ?s1)(0 := Failed (Status 401)),
          hooksRun := hooksRun ?s1 @ [(0, CallerHandler 8)]\<rparr>"
    by simp
  have run_eq: "run ''https://api.test'' example_jwtDecode ?s
        [Call 0 0 5000001 GET ''/api/items'' None caller_hooks, Response 0 (Status 401)]
      = fetch_finish 0 (Status 401) ?s1"
    using idle call by (simp add: run_def step_def)
  show ?thesis
    unfolding run_eq fin using authd exp h1 h2
    by (simp add: example_gateway_state example_session_def)
qed

end
